theory Spec2Isabelle
  imports Main "HOL-Library.AList"
begin

section \<open>JavaScript values used by the store\<close>

text \<open>
  A \<^verbatim>\<open>Date\<close> is held as its time value (milliseconds since the epoch). Every
  \<^verbatim>\<open>new Date()\<close> of the source reads the wall clock; the reading is an argument
  (\<open>now\<close>) of the operation that takes it.
\<close>

type_synonym Date = int

text \<open>
  \<^verbatim>\<open>String.prototype.toLowerCase\<close>, on the ASCII letters (strings are byte lists
  here; the column names and e-mail addresses compared by the source are ASCII).
\<close>

definition lower_char :: "char \<Rightarrow> char" where
  "lower_char c =
     (case map_of (zip ''ABCDEFGHIJKLMNOPQRSTUVWXYZ'' ''abcdefghijklmnopqrstuvwxyz'') c of
        None \<Rightarrow> c
      | Some l \<Rightarrow> l)"

definition toLowerCase :: "string \<Rightarrow> string" where
  "toLowerCase str = map lower_char str"

text \<open>
  \<^verbatim>\<open>x || null\<close> on an optional string: \<^verbatim>\<open>undefined\<close>, \<^verbatim>\<open>null\<close> and the empty
  string are falsy and all become \<^verbatim>\<open>null\<close> (\<open>None\<close>).
\<close>

definition or_null :: "string option \<Rightarrow> string option" where
  "or_null x = (case x of None \<Rightarrow> None | Some str \<Rightarrow> if str = [] then None else Some str)"

text \<open>\<^verbatim>\<open>x || false\<close> on an optional boolean.\<close>

definition or_false :: "bool option \<Rightarrow> bool" where
  "or_false x = (case x of None \<Rightarrow> False | Some b \<Rightarrow> b)"

text \<open>A JSON value (the \<^verbatim>\<open>jsonb\<close> column \<^verbatim>\<open>submitted_data\<close>); SQL null is \<open>None\<close>.\<close>

datatype json = JBool bool | JNum int | JStr string | JArr "json list" | JObj "(string \<times> json) list"

fun falsy :: "json \<Rightarrow> bool" where
  "falsy (JBool b) = (\<not> b)"
| "falsy (JNum n) = (n = 0)"
| "falsy (JStr str) = (str = [])"
| "falsy (JArr xs) = False"
| "falsy (JObj kvs) = False"

definition json_or_null :: "json option \<Rightarrow> json option" where
  "json_or_null x = (case x of None \<Rightarrow> None | Some j \<Rightarrow> if falsy j then None else Some j)"

text \<open>
  The object spread \<^verbatim>\<open>{...entity, ...data}\<close>, field by field: a field that \<open>data\<close>
  carries (\<open>Some v\<close>) overrides the entity's, a field it does not carry (\<open>None\<close>) leaves
  it.
\<close>

definition spread :: "'a \<Rightarrow> 'a option \<Rightarrow> 'a" where
  "spread old new = (case new of None \<Rightarrow> old | Some v \<Rightarrow> v)"

subsection \<open>\<^verbatim>\<open>Map<number, V>\<close>\<close>

text \<open>
  A JavaScript \<^verbatim>\<open>Map\<close> keeps its entries in insertion order, one entry per key:
  an association list. \<^verbatim>\<open>set\<close> on a key that is present replaces the value in place,
  on a new key it appends; \<^verbatim>\<open>delete\<close> returns whether the key was present.
\<close>

type_synonym 'v js_map = "(int \<times> 'v) list"

fun Map_get :: "'v js_map \<Rightarrow> int \<Rightarrow> 'v option" where
  "Map_get [] k = None"
| "Map_get ((k', v) # m) k = (if k' = k then Some v else Map_get m k)"

fun Map_set :: "int \<Rightarrow> 'v \<Rightarrow> 'v js_map \<Rightarrow> 'v js_map" where
  "Map_set k v [] = [(k, v)]"
| "Map_set k v ((k', v') # m) = (if k' = k then (k, v) # m else (k', v') # Map_set k v m)"

definition Map_has :: "'v js_map \<Rightarrow> int \<Rightarrow> bool" where
  "Map_has m k = (Map_get m k \<noteq> None)"

definition Map_delete :: "int \<Rightarrow> 'v js_map \<Rightarrow> bool \<times> 'v js_map" where
  "Map_delete k m = (Map_has m k, filter (\<lambda>(k', v). k' \<noteq> k) m)"

definition Map_values :: "'v js_map \<Rightarrow> 'v list" where
  "Map_values m = map snd m"

text \<open>\<^verbatim>\<open>Array.prototype.find\<close>: the first element that satisfies the predicate.\<close>

fun array_find :: "('a \<Rightarrow> bool) \<Rightarrow> 'a list \<Rightarrow> 'a option" where
  "array_find p [] = None"
| "array_find p (x # xs) = (if p x then Some x else array_find p xs)"

text \<open>The invariant of a \<^verbatim>\<open>Map\<close>: no key occurs twice.\<close>

definition Map_ok :: "'v js_map \<Rightarrow> bool" where
  "Map_ok m = distinct (map fst m)"

section \<open>The entities (shared/schema.ts)\<close>

record Organization =
  o_id :: int
  o_name :: string
  o_createdAt :: Date
  o_updatedAt :: Date

record InsertOrganization =
  io_name :: string

record User =
  u_id :: int
  u_email :: string
  u_password :: string
  u_firstName :: string
  u_lastName :: string
  u_isAdmin :: bool
  u_organizationId :: int
  u_organizationName :: string
  u_createdAt :: Date
  u_updatedAt :: Date

text \<open>\<^verbatim>\<open>InsertUser & { organizationId: number }\<close>\<close>

record InsertUser =
  iu_email :: string
  iu_password :: string
  iu_firstName :: string
  iu_lastName :: string
  iu_isAdmin :: "bool option"
  iu_organizationName :: string
  iu_organizationId :: int

text \<open>
  \<^verbatim>\<open>Partial<User>\<close>: every field of the entity, each one optional. The same shape
  is declared for every entity below.
\<close>

record PartialUser =
  pu_id :: "int option"
  pu_email :: "string option"
  pu_password :: "string option"
  pu_firstName :: "string option"
  pu_lastName :: "string option"
  pu_isAdmin :: "bool option"
  pu_organizationId :: "int option"
  pu_organizationName :: "string option"
  pu_createdAt :: "Date option"
  pu_updatedAt :: "Date option"

record Group =
  g_id :: int
  g_name :: string
  g_description :: "string option"
  g_organizationId :: int
  g_createdAt :: Date
  g_updatedAt :: Date

record InsertGroup =
  ig_name :: string
  ig_description :: "string option"

record PartialGroup =
  pg_id :: "int option"
  pg_name :: "string option"
  pg_description :: "string option option"
  pg_organizationId :: "int option"
  pg_createdAt :: "Date option"
  pg_updatedAt :: "Date option"

text \<open>\<^verbatim>\<open>Group & { targetCount: number }\<close>\<close>

record GroupWithCount = Group +
  targetCount :: nat

record Target =
  t_id :: int
  t_firstName :: string
  t_lastName :: string
  t_email :: string
  t_position :: "string option"
  t_groupId :: int
  t_organizationId :: int
  t_createdAt :: Date
  t_updatedAt :: Date

record InsertTarget =
  it_firstName :: string
  it_lastName :: string
  it_email :: string
  it_position :: "string option"

record PartialTarget =
  pt_id :: "int option"
  pt_firstName :: "string option"
  pt_lastName :: "string option"
  pt_email :: "string option"
  pt_position :: "string option option"
  pt_groupId :: "int option"
  pt_organizationId :: "int option"
  pt_createdAt :: "Date option"
  pt_updatedAt :: "Date option"

record SmtpProfile =
  sp_id :: int
  sp_name :: string
  sp_host :: string
  sp_port :: int
  sp_username :: string
  sp_password :: string
  sp_fromName :: string
  sp_fromEmail :: string
  sp_organizationId :: int
  sp_createdAt :: Date
  sp_updatedAt :: Date

record InsertSmtpProfile =
  isp_name :: string
  isp_host :: string
  isp_port :: int
  isp_username :: string
  isp_password :: string
  isp_fromName :: string
  isp_fromEmail :: string

record PartialSmtpProfile =
  psp_id :: "int option"
  psp_name :: "string option"
  psp_host :: "string option"
  psp_port :: "int option"
  psp_username :: "string option"
  psp_password :: "string option"
  psp_fromName :: "string option"
  psp_fromEmail :: "string option"
  psp_organizationId :: "int option"
  psp_createdAt :: "Date option"
  psp_updatedAt :: "Date option"

record EmailTemplate =
  et_id :: int
  et_name :: string
  et_subject :: string
  et_htmlContent :: string
  et_textContent :: "string option"
  et_senderName :: string
  et_senderEmail :: string
  et_organizationId :: int
  et_createdById :: "int option"
  et_createdAt :: Date
  et_updatedAt :: Date

record InsertEmailTemplate =
  iet_name :: string
  iet_subject :: string
  iet_htmlContent :: string
  iet_textContent :: "string option"
  iet_senderName :: string
  iet_senderEmail :: string

record PartialEmailTemplate =
  pet_id :: "int option"
  pet_name :: "string option"
  pet_subject :: "string option"
  pet_htmlContent :: "string option"
  pet_textContent :: "string option option"
  pet_senderName :: "string option"
  pet_senderEmail :: "string option"
  pet_organizationId :: "int option"
  pet_createdById :: "int option option"
  pet_createdAt :: "Date option"
  pet_updatedAt :: "Date option"

record LandingPage =
  lp_id :: int
  lp_name :: string
  lp_description :: "string option"
  lp_htmlContent :: string
  lp_redirectUrl :: "string option"
  lp_pageType :: string
  lp_thumbnail :: "string option"
  lp_organizationId :: int
  lp_createdById :: "int option"
  lp_createdAt :: Date
  lp_updatedAt :: Date

record InsertLandingPage =
  ilp_name :: string
  ilp_description :: "string option"
  ilp_htmlContent :: string
  ilp_redirectUrl :: "string option"
  ilp_pageType :: string
  ilp_thumbnail :: "string option"

record PartialLandingPage =
  plp_id :: "int option"
  plp_name :: "string option"
  plp_description :: "string option option"
  plp_htmlContent :: "string option"
  plp_redirectUrl :: "string option option"
  plp_pageType :: "string option"
  plp_thumbnail :: "string option option"
  plp_organizationId :: "int option"
  plp_createdById :: "int option option"
  plp_createdAt :: "Date option"
  plp_updatedAt :: "Date option"

record Campaign =
  c_id :: int
  c_name :: string
  c_status :: string
  c_targetGroupId :: int
  c_smtpProfileId :: int
  c_emailTemplateId :: int
  c_landingPageId :: int
  c_scheduledAt :: "Date option"
  c_endDate :: "Date option"
  c_createdById :: int
  c_organizationId :: int
  c_createdAt :: Date
  c_updatedAt :: Date

record InsertCampaign =
  ic_name :: string
  ic_targetGroupId :: int
  ic_smtpProfileId :: int
  ic_emailTemplateId :: int
  ic_landingPageId :: int
  ic_scheduledAt :: "Date option"
  ic_endDate :: "Date option"

record PartialCampaign =
  pc_id :: "int option"
  pc_name :: "string option"
  pc_status :: "string option"
  pc_targetGroupId :: "int option"
  pc_smtpProfileId :: "int option"
  pc_emailTemplateId :: "int option"
  pc_landingPageId :: "int option"
  pc_scheduledAt :: "Date option option"
  pc_endDate :: "Date option option"
  pc_createdById :: "int option"
  pc_organizationId :: "int option"
  pc_createdAt :: "Date option"
  pc_updatedAt :: "Date option"

record CampaignResult =
  cr_id :: int
  cr_campaignId :: int
  cr_targetId :: int
  cr_sent :: bool
  cr_sentAt :: "Date option"
  cr_opened :: bool
  cr_openedAt :: "Date option"
  cr_clicked :: bool
  cr_clickedAt :: "Date option"
  cr_submitted :: bool
  cr_submittedAt :: "Date option"
  cr_submittedData :: "json option"
  cr_organizationId :: int
  cr_createdAt :: Date
  cr_updatedAt :: Date

record InsertCampaignResult =
  icr_campaignId :: int
  icr_targetId :: int
  icr_sent :: "bool option"
  icr_sentAt :: "Date option"
  icr_opened :: "bool option"
  icr_openedAt :: "Date option"
  icr_clicked :: "bool option"
  icr_clickedAt :: "Date option"
  icr_submitted :: "bool option"
  icr_submittedAt :: "Date option"
  icr_submittedData :: "json option"

record PartialCampaignResult =
  pcr_id :: "int option"
  pcr_campaignId :: "int option"
  pcr_targetId :: "int option"
  pcr_sent :: "bool option"
  pcr_sentAt :: "Date option option"
  pcr_opened :: "bool option"
  pcr_openedAt :: "Date option option"
  pcr_clicked :: "bool option"
  pcr_clickedAt :: "Date option option"
  pcr_submitted :: "bool option"
  pcr_submittedAt :: "Date option option"
  pcr_submittedData :: "json option option"
  pcr_organizationId :: "int option"
  pcr_createdAt :: "Date option"
  pcr_updatedAt :: "Date option"

section \<open>The in-memory store (class MemStorage)\<close>

record MemStorage =
  users :: "User js_map"
  organizations :: "Organization js_map"
  groups :: "Group js_map"
  targets :: "Target js_map"
  smtpProfiles :: "SmtpProfile js_map"
  emailTemplates :: "EmailTemplate js_map"
  landingPages :: "LandingPage js_map"
  campaigns :: "Campaign js_map"
  campaignResults :: "CampaignResult js_map"
  currentId :: int

text \<open>The constructor: nine empty maps, \<^verbatim>\<open>currentId = 1\<close>.\<close>

definition new_MemStorage :: MemStorage where
  "new_MemStorage =
     \<lparr>users = [], organizations = [], groups = [], targets = [], smtpProfiles = [],
      emailTemplates = [], landingPages = [], campaigns = [], campaignResults = [],
      currentId = 1\<rparr>"

subsection \<open>User methods\<close>

definition getUser :: "int \<Rightarrow> MemStorage \<Rightarrow> User option" where
  "getUser eid s = Map_get (users s) eid"

definition getUserByEmail :: "string \<Rightarrow> MemStorage \<Rightarrow> User option" where
  "getUserByEmail email s =
     array_find (\<lambda>user. toLowerCase (u_email user) = toLowerCase email) (Map_values (users s))"

definition createUser :: "Date \<Rightarrow> InsertUser \<Rightarrow> MemStorage \<Rightarrow> User \<times> MemStorage" where
  "createUser now user s =
     (let eid = currentId s;
          newUser = \<lparr>u_id = eid, u_email = iu_email user, u_password = iu_password user,
            u_firstName = iu_firstName user, u_lastName = iu_lastName user,
            u_isAdmin = or_false (iu_isAdmin user),
            u_organizationId = iu_organizationId user,
            u_organizationName = iu_organizationName user,
            u_createdAt = now, u_updatedAt = now\<rparr>
      in (newUser, s\<lparr>currentId := eid + 1, users := Map_set eid newUser (users s)\<rparr>))"

definition spread_User :: "User \<Rightarrow> PartialUser \<Rightarrow> Date \<Rightarrow> User" where
  "spread_User user data now =
     \<lparr>u_id = spread (u_id user) (pu_id data),
      u_email = spread (u_email user) (pu_email data),
      u_password = spread (u_password user) (pu_password data),
      u_firstName = spread (u_firstName user) (pu_firstName data),
      u_lastName = spread (u_lastName user) (pu_lastName data),
      u_isAdmin = spread (u_isAdmin user) (pu_isAdmin data),
      u_organizationId = spread (u_organizationId user) (pu_organizationId data),
      u_organizationName = spread (u_organizationName user) (pu_organizationName data),
      u_createdAt = spread (u_createdAt user) (pu_createdAt data),
      u_updatedAt = now\<rparr>"

definition updateUser :: "Date \<Rightarrow> int \<Rightarrow> PartialUser \<Rightarrow> MemStorage \<Rightarrow> User option \<times> MemStorage" where
  "updateUser now eid data s =
     (case Map_get (users s) eid of
        None \<Rightarrow> (None, s)
      | Some user \<Rightarrow>
          (let updatedUser = spread_User user data now
           in (Some updatedUser, s\<lparr>users := Map_set eid updatedUser (users s)\<rparr>)))"

definition deleteUser :: "int \<Rightarrow> MemStorage \<Rightarrow> bool \<times> MemStorage" where
  "deleteUser eid s = (let (r, m) = Map_delete eid (users s) in (r, s\<lparr>users := m\<rparr>))"


subsection \<open>Organization methods\<close>


definition getOrganizationByName :: "string \<Rightarrow> MemStorage \<Rightarrow> Organization option" where
  "getOrganizationByName name s =
     array_find (\<lambda>org. toLowerCase (o_name org) = toLowerCase name) (Map_values (organizations s))"

definition createOrganization ::
  "Date \<Rightarrow> InsertOrganization \<Rightarrow> MemStorage \<Rightarrow> Organization \<times> MemStorage" where
  "createOrganization now organization s =
     (let eid = currentId s;
          newOrg = \<lparr>o_id = eid, o_name = io_name organization,
            o_createdAt = now, o_updatedAt = now\<rparr>
      in (newOrg, s\<lparr>currentId := eid + 1, organizations := Map_set eid newOrg (organizations s)\<rparr>))"

subsection \<open>Group methods\<close>

definition getGroup :: "int \<Rightarrow> MemStorage \<Rightarrow> Group option" where
  "getGroup eid s = Map_get (groups s) eid"

definition createGroup :: "Date \<Rightarrow> int \<Rightarrow> InsertGroup \<Rightarrow> MemStorage \<Rightarrow> Group \<times> MemStorage" where
  "createGroup now organizationId grp s =
     (let eid = currentId s;
          newGroup = \<lparr>g_id = eid, g_name = ig_name grp,
            g_description = or_null (ig_description grp),
            g_organizationId = organizationId,
            g_createdAt = now, g_updatedAt = now\<rparr>
      in (newGroup, s\<lparr>currentId := eid + 1, groups := Map_set eid newGroup (groups s)\<rparr>))"

definition spread_Group :: "Group \<Rightarrow> PartialGroup \<Rightarrow> Date \<Rightarrow> Group" where
  "spread_Group grp data now =
     \<lparr>g_id = spread (g_id grp) (pg_id data),
      g_name = spread (g_name grp) (pg_name data),
      g_description = spread (g_description grp) (pg_description data),
      g_organizationId = spread (g_organizationId grp) (pg_organizationId data),
      g_createdAt = spread (g_createdAt grp) (pg_createdAt data),
      g_updatedAt = now\<rparr>"

definition updateGroup :: "Date \<Rightarrow> int \<Rightarrow> PartialGroup \<Rightarrow> MemStorage \<Rightarrow> Group option \<times> MemStorage" where
  "updateGroup now eid data s =
     (case Map_get (groups s) eid of
        None \<Rightarrow> (None, s)
      | Some grp \<Rightarrow>
          (let updatedGroup = spread_Group grp data now
           in (Some updatedGroup, s\<lparr>groups := Map_set eid updatedGroup (groups s)\<rparr>)))"

text \<open>
  The loop of \<^verbatim>\<open>deleteGroup\<close> walks the entries of \<^verbatim>\<open>this.targets\<close> and deletes,
  from the map it walks, each entry whose target is in the group. Deleting the entry
  under the cursor of a \<^verbatim>\<open>Map\<close> iterator does not disturb the walk, so the entries
  visited are those of the map as it was at the start.
\<close>

fun delete_targets_of :: "int \<Rightarrow> Target js_map \<Rightarrow> Target js_map \<Rightarrow> Target js_map" where
  "delete_targets_of gid [] m = m"
| "delete_targets_of gid ((targetId, target) # entries) m =
     (if t_groupId target = gid
      then delete_targets_of gid entries (snd (Map_delete targetId m))
      else delete_targets_of gid entries m)"

definition deleteGroup :: "int \<Rightarrow> MemStorage \<Rightarrow> bool \<times> MemStorage" where
  "deleteGroup eid s =
     (let s1 = s\<lparr>targets := delete_targets_of eid (targets s) (targets s)\<rparr>;
          (r, m) = Map_delete eid (groups s1)
      in (r, s1\<lparr>groups := m\<rparr>))"

definition listGroups :: "int \<Rightarrow> MemStorage \<Rightarrow> GroupWithCount list" where
  "listGroups organizationId s =
     (let orgGroups = filter (\<lambda>grp. g_organizationId grp = organizationId)
                        (Map_values (groups s))
      in map (\<lambda>grp.
                Group.extend grp
                  \<lparr>targetCount =
                     length (filter (\<lambda>target. t_groupId target = g_id grp)
                               (Map_values (targets s)))\<rparr>)
           orgGroups)"

subsection \<open>Target methods\<close>

definition getTarget :: "int \<Rightarrow> MemStorage \<Rightarrow> Target option" where
  "getTarget eid s = Map_get (targets s) eid"

definition createTarget ::
  "Date \<Rightarrow> int \<Rightarrow> int \<Rightarrow> InsertTarget \<Rightarrow> MemStorage \<Rightarrow> Target \<times> MemStorage" where
  "createTarget now organizationId groupId target s =
     (let eid = currentId s;
          newTarget = \<lparr>t_id = eid, t_firstName = it_firstName target,
            t_lastName = it_lastName target, t_email = it_email target,
            t_position = or_null (it_position target),
            t_groupId = groupId, t_organizationId = organizationId,
            t_createdAt = now, t_updatedAt = now\<rparr>
      in (newTarget, s\<lparr>currentId := eid + 1, targets := Map_set eid newTarget (targets s)\<rparr>))"

definition spread_Target :: "Target \<Rightarrow> PartialTarget \<Rightarrow> Date \<Rightarrow> Target" where
  "spread_Target target data now =
     \<lparr>t_id = spread (t_id target) (pt_id data),
      t_firstName = spread (t_firstName target) (pt_firstName data),
      t_lastName = spread (t_lastName target) (pt_lastName data),
      t_email = spread (t_email target) (pt_email data),
      t_position = spread (t_position target) (pt_position data),
      t_groupId = spread (t_groupId target) (pt_groupId data),
      t_organizationId = spread (t_organizationId target) (pt_organizationId data),
      t_createdAt = spread (t_createdAt target) (pt_createdAt data),
      t_updatedAt = now\<rparr>"

definition updateTarget :: "Date \<Rightarrow> int \<Rightarrow> PartialTarget \<Rightarrow> MemStorage \<Rightarrow> Target option \<times> MemStorage" where
  "updateTarget now eid data s =
     (case Map_get (targets s) eid of
        None \<Rightarrow> (None, s)
      | Some target \<Rightarrow>
          (let updatedTarget = spread_Target target data now
           in (Some updatedTarget, s\<lparr>targets := Map_set eid updatedTarget (targets s)\<rparr>)))"

definition deleteTarget :: "int \<Rightarrow> MemStorage \<Rightarrow> bool \<times> MemStorage" where
  "deleteTarget eid s = (let (r, m) = Map_delete eid (targets s) in (r, s\<lparr>targets := m\<rparr>))"


subsection \<open>SMTP profile methods\<close>

definition getSmtpProfile :: "int \<Rightarrow> MemStorage \<Rightarrow> SmtpProfile option" where
  "getSmtpProfile eid s = Map_get (smtpProfiles s) eid"

definition createSmtpProfile ::
  "Date \<Rightarrow> int \<Rightarrow> InsertSmtpProfile \<Rightarrow> MemStorage \<Rightarrow> SmtpProfile \<times> MemStorage" where
  "createSmtpProfile now organizationId profile s =
     (let eid = currentId s;
          newProfile = \<lparr>sp_id = eid, sp_name = isp_name profile, sp_host = isp_host profile,
            sp_port = isp_port profile, sp_username = isp_username profile,
            sp_password = isp_password profile, sp_fromName = isp_fromName profile,
            sp_fromEmail = isp_fromEmail profile, sp_organizationId = organizationId,
            sp_createdAt = now, sp_updatedAt = now\<rparr>
      in (newProfile,
          s\<lparr>currentId := eid + 1, smtpProfiles := Map_set eid newProfile (smtpProfiles s)\<rparr>))"

definition spread_SmtpProfile :: "SmtpProfile \<Rightarrow> PartialSmtpProfile \<Rightarrow> Date \<Rightarrow> SmtpProfile" where
  "spread_SmtpProfile profile data now =
     \<lparr>sp_id = spread (sp_id profile) (psp_id data),
      sp_name = spread (sp_name profile) (psp_name data),
      sp_host = spread (sp_host profile) (psp_host data),
      sp_port = spread (sp_port profile) (psp_port data),
      sp_username = spread (sp_username profile) (psp_username data),
      sp_password = spread (sp_password profile) (psp_password data),
      sp_fromName = spread (sp_fromName profile) (psp_fromName data),
      sp_fromEmail = spread (sp_fromEmail profile) (psp_fromEmail data),
      sp_organizationId = spread (sp_organizationId profile) (psp_organizationId data),
      sp_createdAt = spread (sp_createdAt profile) (psp_createdAt data),
      sp_updatedAt = now\<rparr>"

definition updateSmtpProfile ::
  "Date \<Rightarrow> int \<Rightarrow> PartialSmtpProfile \<Rightarrow> MemStorage \<Rightarrow> SmtpProfile option \<times> MemStorage" where
  "updateSmtpProfile now eid data s =
     (case Map_get (smtpProfiles s) eid of
        None \<Rightarrow> (None, s)
      | Some profile \<Rightarrow>
          (let updatedProfile = spread_SmtpProfile profile data now
           in (Some updatedProfile,
               s\<lparr>smtpProfiles := Map_set eid updatedProfile (smtpProfiles s)\<rparr>)))"

definition deleteSmtpProfile :: "int \<Rightarrow> MemStorage \<Rightarrow> bool \<times> MemStorage" where
  "deleteSmtpProfile eid s =
     (let (r, m) = Map_delete eid (smtpProfiles s) in (r, s\<lparr>smtpProfiles := m\<rparr>))"


subsection \<open>Email template methods\<close>

definition getEmailTemplate :: "int \<Rightarrow> MemStorage \<Rightarrow> EmailTemplate option" where
  "getEmailTemplate eid s = Map_get (emailTemplates s) eid"

definition createEmailTemplate ::
  "Date \<Rightarrow> int \<Rightarrow> int \<Rightarrow> InsertEmailTemplate \<Rightarrow> MemStorage \<Rightarrow> EmailTemplate \<times> MemStorage" where
  "createEmailTemplate now organizationId userId template s =
     (let eid = currentId s;
          newTemplate = \<lparr>et_id = eid, et_name = iet_name template,
            et_subject = iet_subject template, et_htmlContent = iet_htmlContent template,
            et_textContent = or_null (iet_textContent template),
            et_senderName = iet_senderName template,
            et_senderEmail = iet_senderEmail template,
            et_organizationId = organizationId, et_createdById = Some userId,
            et_createdAt = now, et_updatedAt = now\<rparr>
      in (newTemplate,
          s\<lparr>currentId := eid + 1, emailTemplates := Map_set eid newTemplate (emailTemplates s)\<rparr>))"

definition spread_EmailTemplate ::
  "EmailTemplate \<Rightarrow> PartialEmailTemplate \<Rightarrow> Date \<Rightarrow> EmailTemplate" where
  "spread_EmailTemplate template data now =
     \<lparr>et_id = spread (et_id template) (pet_id data),
      et_name = spread (et_name template) (pet_name data),
      et_subject = spread (et_subject template) (pet_subject data),
      et_htmlContent = spread (et_htmlContent template) (pet_htmlContent data),
      et_textContent = spread (et_textContent template) (pet_textContent data),
      et_senderName = spread (et_senderName template) (pet_senderName data),
      et_senderEmail = spread (et_senderEmail template) (pet_senderEmail data),
      et_organizationId = spread (et_organizationId template) (pet_organizationId data),
      et_createdById = spread (et_createdById template) (pet_createdById data),
      et_createdAt = spread (et_createdAt template) (pet_createdAt data),
      et_updatedAt = now\<rparr>"

definition updateEmailTemplate ::
  "Date \<Rightarrow> int \<Rightarrow> PartialEmailTemplate \<Rightarrow> MemStorage \<Rightarrow> EmailTemplate option \<times> MemStorage" where
  "updateEmailTemplate now eid data s =
     (case Map_get (emailTemplates s) eid of
        None \<Rightarrow> (None, s)
      | Some template \<Rightarrow>
          (let updatedTemplate = spread_EmailTemplate template data now
           in (Some updatedTemplate,
               s\<lparr>emailTemplates := Map_set eid updatedTemplate (emailTemplates s)\<rparr>)))"

definition deleteEmailTemplate :: "int \<Rightarrow> MemStorage \<Rightarrow> bool \<times> MemStorage" where
  "deleteEmailTemplate eid s =
     (let (r, m) = Map_delete eid (emailTemplates s) in (r, s\<lparr>emailTemplates := m\<rparr>))"


subsection \<open>Landing page methods\<close>

definition getLandingPage :: "int \<Rightarrow> MemStorage \<Rightarrow> LandingPage option" where
  "getLandingPage eid s = Map_get (landingPages s) eid"

definition createLandingPage ::
  "Date \<Rightarrow> int \<Rightarrow> int \<Rightarrow> InsertLandingPage \<Rightarrow> MemStorage \<Rightarrow> LandingPage \<times> MemStorage" where
  "createLandingPage now organizationId userId page s =
     (let eid = currentId s;
          newPage = \<lparr>lp_id = eid, lp_name = ilp_name page,
            lp_description = or_null (ilp_description page),
            lp_htmlContent = ilp_htmlContent page,
            lp_redirectUrl = or_null (ilp_redirectUrl page),
            lp_pageType = ilp_pageType page,
            lp_thumbnail = or_null (ilp_thumbnail page),
            lp_organizationId = organizationId, lp_createdById = Some userId,
            lp_createdAt = now, lp_updatedAt = now\<rparr>
      in (newPage, s\<lparr>currentId := eid + 1, landingPages := Map_set eid newPage (landingPages s)\<rparr>))"

definition spread_LandingPage :: "LandingPage \<Rightarrow> PartialLandingPage \<Rightarrow> Date \<Rightarrow> LandingPage" where
  "spread_LandingPage page data now =
     \<lparr>lp_id = spread (lp_id page) (plp_id data),
      lp_name = spread (lp_name page) (plp_name data),
      lp_description = spread (lp_description page) (plp_description data),
      lp_htmlContent = spread (lp_htmlContent page) (plp_htmlContent data),
      lp_redirectUrl = spread (lp_redirectUrl page) (plp_redirectUrl data),
      lp_pageType = spread (lp_pageType page) (plp_pageType data),
      lp_thumbnail = spread (lp_thumbnail page) (plp_thumbnail data),
      lp_organizationId = spread (lp_organizationId page) (plp_organizationId data),
      lp_createdById = spread (lp_createdById page) (plp_createdById data),
      lp_createdAt = spread (lp_createdAt page) (plp_createdAt data),
      lp_updatedAt = now\<rparr>"

definition updateLandingPage ::
  "Date \<Rightarrow> int \<Rightarrow> PartialLandingPage \<Rightarrow> MemStorage \<Rightarrow> LandingPage option \<times> MemStorage" where
  "updateLandingPage now eid data s =
     (case Map_get (landingPages s) eid of
        None \<Rightarrow> (None, s)
      | Some page \<Rightarrow>
          (let updatedPage = spread_LandingPage page data now
           in (Some updatedPage, s\<lparr>landingPages := Map_set eid updatedPage (landingPages s)\<rparr>)))"

definition deleteLandingPage :: "int \<Rightarrow> MemStorage \<Rightarrow> bool \<times> MemStorage" where
  "deleteLandingPage eid s =
     (let (r, m) = Map_delete eid (landingPages s) in (r, s\<lparr>landingPages := m\<rparr>))"


subsection \<open>Campaign methods\<close>

definition getCampaign :: "int \<Rightarrow> MemStorage \<Rightarrow> Campaign option" where
  "getCampaign eid s = Map_get (campaigns s) eid"

text \<open>
  \<^verbatim>\<open>Number(x)\<close> of an id that is a number already is the id;
  \<^verbatim>\<open>d ? new Date(d) : null\<close> of an optional \<^verbatim>\<open>Date\<close> is the date, or null.
\<close>

definition createCampaign ::
  "Date \<Rightarrow> int \<Rightarrow> int \<Rightarrow> InsertCampaign \<Rightarrow> MemStorage \<Rightarrow> Campaign \<times> MemStorage" where
  "createCampaign now organizationId userId campaign s =
     (let eid = currentId s;
          newCampaign = \<lparr>c_id = eid, c_name = ic_name campaign, c_status = ''Draft'',
            c_targetGroupId = ic_targetGroupId campaign,
            c_smtpProfileId = ic_smtpProfileId campaign,
            c_emailTemplateId = ic_emailTemplateId campaign,
            c_landingPageId = ic_landingPageId campaign,
            c_scheduledAt = ic_scheduledAt campaign,
            c_endDate = ic_endDate campaign,
            c_createdById = userId, c_organizationId = organizationId,
            c_createdAt = now, c_updatedAt = now\<rparr>
      in (newCampaign, s\<lparr>currentId := eid + 1, campaigns := Map_set eid newCampaign (campaigns s)\<rparr>))"

definition spread_Campaign :: "Campaign \<Rightarrow> PartialCampaign \<Rightarrow> Date \<Rightarrow> Campaign" where
  "spread_Campaign campaign data now =
     \<lparr>c_id = spread (c_id campaign) (pc_id data),
      c_name = spread (c_name campaign) (pc_name data),
      c_status = spread (c_status campaign) (pc_status data),
      c_targetGroupId = spread (c_targetGroupId campaign) (pc_targetGroupId data),
      c_smtpProfileId = spread (c_smtpProfileId campaign) (pc_smtpProfileId data),
      c_emailTemplateId = spread (c_emailTemplateId campaign) (pc_emailTemplateId data),
      c_landingPageId = spread (c_landingPageId campaign) (pc_landingPageId data),
      c_scheduledAt = spread (c_scheduledAt campaign) (pc_scheduledAt data),
      c_endDate = spread (c_endDate campaign) (pc_endDate data),
      c_createdById = spread (c_createdById campaign) (pc_createdById data),
      c_organizationId = spread (c_organizationId campaign) (pc_organizationId data),
      c_createdAt = spread (c_createdAt campaign) (pc_createdAt data),
      c_updatedAt = now\<rparr>"

definition updateCampaign ::
  "Date \<Rightarrow> int \<Rightarrow> PartialCampaign \<Rightarrow> MemStorage \<Rightarrow> Campaign option \<times> MemStorage" where
  "updateCampaign now eid data s =
     (case Map_get (campaigns s) eid of
        None \<Rightarrow> (None, s)
      | Some campaign \<Rightarrow>
          (let updatedCampaign = spread_Campaign campaign data now
           in (Some updatedCampaign, s\<lparr>campaigns := Map_set eid updatedCampaign (campaigns s)\<rparr>)))"

text \<open>The loop of \<^verbatim>\<open>deleteCampaign\<close>, over the entries of \<^verbatim>\<open>this.campaignResults\<close>.\<close>

fun delete_results_of ::
  "int \<Rightarrow> CampaignResult js_map \<Rightarrow> CampaignResult js_map \<Rightarrow> CampaignResult js_map" where
  "delete_results_of cid [] m = m"
| "delete_results_of cid ((resultId, result) # entries) m =
     (if cr_campaignId result = cid
      then delete_results_of cid entries (snd (Map_delete resultId m))
      else delete_results_of cid entries m)"

definition deleteCampaign :: "int \<Rightarrow> MemStorage \<Rightarrow> bool \<times> MemStorage" where
  "deleteCampaign eid s =
     (let s1 = s\<lparr>campaignResults :=
                   delete_results_of eid (campaignResults s) (campaignResults s)\<rparr>;
          (r, m) = Map_delete eid (campaigns s1)
      in (r, s1\<lparr>campaigns := m\<rparr>))"

definition listCampaigns :: "int \<Rightarrow> MemStorage \<Rightarrow> Campaign list" where
  "listCampaigns organizationId s =
     filter (\<lambda>campaign. c_organizationId campaign = organizationId) (Map_values (campaigns s))"

subsection \<open>Campaign result methods\<close>

definition getCampaignResult :: "int \<Rightarrow> MemStorage \<Rightarrow> CampaignResult option" where
  "getCampaignResult eid s = Map_get (campaignResults s) eid"

text \<open>A \<^verbatim>\<open>Date\<close> object is truthy, so \<^verbatim>\<open>result.sentAt || null\<close> is the date, or null.\<close>

definition createCampaignResult ::
  "Date \<Rightarrow> int \<Rightarrow> InsertCampaignResult \<Rightarrow> MemStorage \<Rightarrow> CampaignResult \<times> MemStorage" where
  "createCampaignResult now organizationId result s =
     (let eid = currentId s;
          newResult = \<lparr>cr_id = eid, cr_campaignId = icr_campaignId result,
            cr_targetId = icr_targetId result,
            cr_sent = or_false (icr_sent result), cr_sentAt = icr_sentAt result,
            cr_opened = or_false (icr_opened result), cr_openedAt = icr_openedAt result,
            cr_clicked = or_false (icr_clicked result), cr_clickedAt = icr_clickedAt result,
            cr_submitted = or_false (icr_submitted result),
            cr_submittedAt = icr_submittedAt result,
            cr_submittedData = json_or_null (icr_submittedData result),
            cr_organizationId = organizationId,
            cr_createdAt = now, cr_updatedAt = now\<rparr>
      in (newResult,
          s\<lparr>currentId := eid + 1, campaignResults := Map_set eid newResult (campaignResults s)\<rparr>))"

definition spread_CampaignResult ::
  "CampaignResult \<Rightarrow> PartialCampaignResult \<Rightarrow> Date \<Rightarrow> CampaignResult" where
  "spread_CampaignResult result data now =
     \<lparr>cr_id = spread (cr_id result) (pcr_id data),
      cr_campaignId = spread (cr_campaignId result) (pcr_campaignId data),
      cr_targetId = spread (cr_targetId result) (pcr_targetId data),
      cr_sent = spread (cr_sent result) (pcr_sent data),
      cr_sentAt = spread (cr_sentAt result) (pcr_sentAt data),
      cr_opened = spread (cr_opened result) (pcr_opened data),
      cr_openedAt = spread (cr_openedAt result) (pcr_openedAt data),
      cr_clicked = spread (cr_clicked result) (pcr_clicked data),
      cr_clickedAt = spread (cr_clickedAt result) (pcr_clickedAt data),
      cr_submitted = spread (cr_submitted result) (pcr_submitted data),
      cr_submittedAt = spread (cr_submittedAt result) (pcr_submittedAt data),
      cr_submittedData = spread (cr_submittedData result) (pcr_submittedData data),
      cr_organizationId = spread (cr_organizationId result) (pcr_organizationId data),
      cr_createdAt = spread (cr_createdAt result) (pcr_createdAt data),
      cr_updatedAt = now\<rparr>"

definition updateCampaignResult ::
  "Date \<Rightarrow> int \<Rightarrow> PartialCampaignResult \<Rightarrow> MemStorage \<Rightarrow> CampaignResult option \<times> MemStorage" where
  "updateCampaignResult now eid data s =
     (case Map_get (campaignResults s) eid of
        None \<Rightarrow> (None, s)
      | Some result \<Rightarrow>
          (let updatedResult = spread_CampaignResult result data now
           in (Some updatedResult,
               s\<lparr>campaignResults := Map_set eid updatedResult (campaignResults s)\<rparr>)))"


section \<open>The route layer (server/routes.ts)\<close>

text \<open>
  A handler is a function of the session's user (\<^verbatim>\<open>req.user.organizationId\<close>,
  \<^verbatim>\<open>req.user.id\<close>), the request and the store; it returns the response and the store
  after the request. The store behind the handlers is the in-memory one, whose methods
  never throw: all that the outer \<^verbatim>\<open>catch\<close> of a handler can see is a failed schema
  validation, which it answers with status 400, and its status 500 is not reached. An
  id in the path is read with \<^verbatim>\<open>parseInt\<close>; one that is no number finds no entity,
  as an absent id does. Three handlers are embedded: the guarded read of a group's
  targets, the CSV import and the creation of a campaign.
\<close>

record ZodIssue =
  zi_code :: string
  zi_expected :: string
  zi_received :: string
  zi_path :: "string list"
  zi_message :: string

text \<open>An entry of \<^verbatim>\<open>results.errors\<close> of the CSV parser (Papa Parse).\<close>

record PapaError =
  pe_type :: string
  pe_code :: string
  pe_message :: string
  pe_row :: nat

text \<open>
  A data row parsed with \<^verbatim>\<open>header: true\<close> is an object from column names to cell
  texts; \<^verbatim>\<open>Object.entries\<close> lists it in column order.
\<close>

type_synonym CsvRow = "(string \<times> string) list"

record ParseResult =
  pr_data :: "CsvRow list"
  pr_errors :: "PapaError list"

text \<open>\<^verbatim>\<open>error instanceof z.ZodError ? error.errors : "Unknown error"\<close>\<close>

datatype row_failure = ZodErrors "ZodIssue list" | Unknown_error

record RowError =
  re_row :: nat
  re_error :: row_failure

text \<open>
  The body of the import's answer; \<open>errors = None\<close> is the key left \<^verbatim>\<open>undefined\<close>,
  which \<^verbatim>\<open>res.json\<close> omits.
\<close>

record ImportSummary =
  imported :: nat
  failed :: nat
  errors :: "RowError list option"

datatype json_body =
    Message string
  | Validation_error string "ZodIssue list"
  | Csv_parsing_error string "PapaError list"
  | Target_list "Target list"
  | Created_campaign Campaign
  | Import_summary ImportSummary

record response =
  status :: nat
  body :: json_body

text \<open>\<^verbatim>\<open>!entity || entity.organizationId !== req.user.organizationId\<close>\<close>

definition not_owned :: "'e option \<Rightarrow> ('e \<Rightarrow> int) \<Rightarrow> int \<Rightarrow> bool" where
  "not_owned entity organizationId_of organizationId =
     (case entity of None \<Rightarrow> True | Some e \<Rightarrow> organizationId_of e \<noteq> organizationId)"

subsection \<open>GET /api/groups/:id/targets\<close>


subsection \<open>POST /api/groups/:id/import\<close>

text \<open>
  \<^verbatim>\<open>normalizedRow\<close> starts as the empty object; the loop over the row's entries
  assigns the four known fields by the lower-cased column name and skips every other
  column. A later column with the same meaning overwrites an earlier one.
\<close>

record NormalizedRow =
  nr_firstName :: "string option"
  nr_lastName :: "string option"
  nr_email :: "string option"
  nr_position :: "string option"

definition normalize_entry :: "string \<times> string \<Rightarrow> NormalizedRow \<Rightarrow> NormalizedRow" where
  "normalize_entry entry normalizedRow =
     (let lowercaseKey = toLowerCase (fst entry); v = snd entry
      in if lowercaseKey = ''firstname'' \<or> lowercaseKey = ''first_name''
         then normalizedRow\<lparr>nr_firstName := Some v\<rparr>
         else if lowercaseKey = ''lastname'' \<or> lowercaseKey = ''last_name''
         then normalizedRow\<lparr>nr_lastName := Some v\<rparr>
         else if lowercaseKey = ''email''
         then normalizedRow\<lparr>nr_email := Some v\<rparr>
         else if lowercaseKey = ''position'' \<or> lowercaseKey = ''title''
         then normalizedRow\<lparr>nr_position := Some v\<rparr>
         else normalizedRow)"

definition normalize_row :: "CsvRow \<Rightarrow> NormalizedRow" where
  "normalize_row row =
     fold normalize_entry row
       \<lparr>nr_firstName = None, nr_lastName = None, nr_email = None, nr_position = None\<rparr>"

text \<open>
  \<^verbatim>\<open>insertTargetSchema\<close> is derived from the table \<^verbatim>\<open>targets\<close>
  (\<^verbatim>\<open>createInsertSchema(targets).pick({firstName, lastName, email, position})\<close>): a
  \<^verbatim>\<open>text(...).notNull()\<close> column is a required string, the nullable \<^verbatim>\<open>position\<close>
  an optional one. No column carries a format or a minimum length, so every string,
  the empty one too, is accepted. A missing required field is reported as the issue
  \<^verbatim>\<open>{code: "invalid_type", expected: "string", received: "undefined", path: [field],
  message: "Required"}\<close>, in the order of the schema's fields.
\<close>

definition required_issue :: "string \<Rightarrow> ZodIssue" where
  "required_issue field =
     \<lparr>zi_code = ''invalid_type'', zi_expected = ''string'', zi_received = ''undefined'',
      zi_path = [field], zi_message = ''Required''\<rparr>"

definition missing :: "string \<Rightarrow> string option \<Rightarrow> ZodIssue list" where
  "missing field v = (case v of None \<Rightarrow> [required_issue field] | Some str \<Rightarrow> [])"

definition insertTargetSchema_parse :: "NormalizedRow \<Rightarrow> ZodIssue list + InsertTarget" where
  "insertTargetSchema_parse r =
     (case (nr_firstName r, nr_lastName r, nr_email r) of
        (Some f, Some l, Some e) \<Rightarrow>
          Inr \<lparr>it_firstName = f, it_lastName = l, it_email = e, it_position = nr_position r\<rparr>
      | _ \<Rightarrow>
          Inl (missing ''firstName'' (nr_firstName r) @ missing ''lastName'' (nr_lastName r)
               @ missing ''email'' (nr_email r)))"

text \<open>
  The loop over \<^verbatim>\<open>results.data.entries()\<close>, with its two accumulators and the store.
  The body of the \<^verbatim>\<open>try\<close> throws only from the schema (a \<^verbatim>\<open>ZodError\<close>); the
  \<^verbatim>\<open>catch\<close> records the row and the loop goes on. \<open>clock index\<close> is the reading of
  the clock when the target of row \<open>index\<close> is created.
\<close>

fun import_rows ::
  "(nat \<Rightarrow> Date) \<Rightarrow> int \<Rightarrow> int \<Rightarrow> (nat \<times> CsvRow) list \<Rightarrow> Target list \<Rightarrow> RowError list
     \<Rightarrow> MemStorage \<Rightarrow> Target list \<times> RowError list \<times> MemStorage" where
  "import_rows clock organizationId groupId [] importedTargets errs s =
     (importedTargets, errs, s)"
| "import_rows clock organizationId groupId ((index, row) # rest) importedTargets errs s =
     (case insertTargetSchema_parse (normalize_row row) of
        Inr validatedData \<Rightarrow>
          (let (target, s') = createTarget (clock index) organizationId groupId validatedData s
           in import_rows clock organizationId groupId rest (importedTargets @ [target]) errs s')
      | Inl zodErrors \<Rightarrow>
          import_rows clock organizationId groupId rest importedTargets
            (errs @ [\<lparr>re_row = index + 2, re_error = ZodErrors zodErrors\<rparr>]) s)"

text \<open>
  The handler. \<open>file\<close> is the uploaded file as the CSV parser reads it
  (\<^verbatim>\<open>Papa.parse(req.file.buffer.toString(), { header: true, skipEmptyLines: true })\<close>:
  the data rows and the parser's errors), \<open>None\<close> when the request carries no file.
\<close>

definition import_handler ::
  "(nat \<Rightarrow> Date) \<Rightarrow> int \<Rightarrow> int \<Rightarrow> ParseResult option \<Rightarrow> MemStorage \<Rightarrow> response \<times> MemStorage" where
  "import_handler clock organizationId groupId file s =
     (case getGroup groupId s of
        None \<Rightarrow> (\<lparr>status = 404, body = Message ''Group not found''\<rparr>, s)
      | Some grp \<Rightarrow>
          if g_organizationId grp \<noteq> organizationId
          then (\<lparr>status = 403, body = Message ''Access denied''\<rparr>, s)
          else
            (case file of
               None \<Rightarrow> (\<lparr>status = 400, body = Message ''No file uploaded''\<rparr>, s)
             | Some results \<Rightarrow>
                 if length (pr_errors results) > 0
                 then (\<lparr>status = 400,
                        body = Csv_parsing_error ''CSV parsing error'' (pr_errors results)\<rparr>, s)
                 else
                   (let (importedTargets, errs, s') =
                          import_rows clock organizationId groupId
                            (enumerate 0 (pr_data results)) [] [] s
                    in (\<lparr>status = 200,
                         body = Import_summary
                           \<lparr>imported = length importedTargets, failed = length errs,
                            errors = (if length errs > 0 then Some errs else None)\<rparr>\<rparr>,
                        s'))))"

subsection \<open>POST /api/campaigns\<close>

text \<open>
  \<open>parsed\<close> is the outcome of \<^verbatim>\<open>insertCampaignSchema.parse(req.body)\<close>: the issues of
  a body the schema refuses, or the validated data.
\<close>

definition post_campaigns ::
  "Date \<Rightarrow> int \<Rightarrow> int \<Rightarrow> ZodIssue list + InsertCampaign \<Rightarrow> MemStorage \<Rightarrow> response \<times> MemStorage" where
  "post_campaigns now organizationId userId parsed s =
     (case parsed of
        Inl zodErrors \<Rightarrow>
          (\<lparr>status = 400, body = Validation_error ''Validation error'' zodErrors\<rparr>, s)
      | Inr validatedData \<Rightarrow>
          if not_owned (getGroup (ic_targetGroupId validatedData) s)
               g_organizationId organizationId
          then (\<lparr>status = 403, body = Message ''Access denied: Invalid target group''\<rparr>, s)
          else if not_owned (getSmtpProfile (ic_smtpProfileId validatedData) s)
               sp_organizationId organizationId
          then (\<lparr>status = 403, body = Message ''Access denied: Invalid SMTP profile''\<rparr>, s)
          else if not_owned (getEmailTemplate (ic_emailTemplateId validatedData) s)
               et_organizationId organizationId
          then (\<lparr>status = 403, body = Message ''Access denied: Invalid email template''\<rparr>, s)
          else if not_owned (getLandingPage (ic_landingPageId validatedData) s)
               lp_organizationId organizationId
          then (\<lparr>status = 403, body = Message ''Access denied: Invalid landing page''\<rparr>, s)
          else
            (let (campaign, s') = createCampaign now organizationId userId validatedData s
             in (\<lparr>status = 201, body = Created_campaign campaign\<rparr>, s')))"

section \<open>The persistent store (class DatabaseStorage)\<close>

text \<open>
  The methods of \<^verbatim>\<open>DatabaseStorage\<close> that the comparison of the two stores needs,
  over the tables they read and write. A table is the list of its rows; a
  \<^verbatim>\<open>serial\<close> column draws from the sequence of its own table; \<^verbatim>\<open>defaultNow()\<close>
  is the clock reading \<open>now\<close>. The constraints are those the schema declares:
  \<^verbatim>\<open>users.email\<close> is unique, \<^verbatim>\<open>users.organization_id\<close> references
  \<^verbatim>\<open>organizations\<close>, \<^verbatim>\<open>targets.group_id\<close> and \<^verbatim>\<open>campaign_results.target_id\<close>
  are deleted with the row they reference (\<^verbatim>\<open>onDelete: 'cascade'\<close>), and
  \<^verbatim>\<open>campaigns.target_group_id\<close> forbids deleting it (\<^verbatim>\<open>onDelete: 'restrict'\<close>).
  A statement that violates a constraint throws and changes no table.
\<close>

record Database =
  db_users :: "User list"
  db_organizations :: "Organization list"
  db_groups :: "Group list"
  db_targets :: "Target list"
  db_smtpProfiles :: "SmtpProfile list"
  db_emailTemplates :: "EmailTemplate list"
  db_landingPages :: "LandingPage list"
  db_campaigns :: "Campaign list"
  db_campaignResults :: "CampaignResult list"
  users_id_seq :: int
  organizations_id_seq :: int

datatype db_error = Unique_violation | Foreign_key_violation

definition new_Database :: Database where
  "new_Database =
     \<lparr>db_users = [], db_organizations = [], db_groups = [], db_targets = [],
      db_smtpProfiles = [], db_emailTemplates = [], db_landingPages = [],
      db_campaigns = [], db_campaignResults = [], users_id_seq = 1,
      organizations_id_seq = 1\<rparr>"

text \<open>\<^verbatim>\<open>const [row] = await db.select()...\<close>: the first row, or \<^verbatim>\<open>undefined\<close>.\<close>

definition first_row :: "'a list \<Rightarrow> 'a option" where
  "first_row rows = (case rows of [] \<Rightarrow> None | r # rest \<Rightarrow> Some r)"

definition db_getUserByEmail :: "string \<Rightarrow> Database \<Rightarrow> User option" where
  "db_getUserByEmail email db = first_row (filter (\<lambda>user. u_email user = email) (db_users db))"

definition db_getOrganizationByName :: "string \<Rightarrow> Database \<Rightarrow> Organization option" where
  "db_getOrganizationByName name db =
     first_row (filter (\<lambda>org. o_name org = name) (db_organizations db))"

definition db_createOrganization ::
  "Date \<Rightarrow> InsertOrganization \<Rightarrow> Database \<Rightarrow> Organization \<times> Database" where
  "db_createOrganization now organization db =
     (let eid = organizations_id_seq db;
          newOrganization = \<lparr>o_id = eid, o_name = io_name organization,
            o_createdAt = now, o_updatedAt = now\<rparr>
      in (newOrganization,
          db\<lparr>organizations_id_seq := eid + 1,
             db_organizations := db_organizations db @ [newOrganization]\<rparr>))"

definition db_createUser ::
  "Date \<Rightarrow> InsertUser \<Rightarrow> Database \<Rightarrow> (db_error + User) \<times> Database" where
  "db_createUser now user db =
     (let eid = users_id_seq db;
          newUser = \<lparr>u_id = eid, u_email = iu_email user, u_password = iu_password user,
            u_firstName = iu_firstName user, u_lastName = iu_lastName user,
            u_isAdmin = or_false (iu_isAdmin user),
            u_organizationId = iu_organizationId user,
            u_organizationName = iu_organizationName user,
            u_createdAt = now, u_updatedAt = now\<rparr>;
          db1 = db\<lparr>users_id_seq := eid + 1\<rparr>
      in if iu_email user \<in> set (map u_email (db_users db))
         then (Inl Unique_violation, db1)
         else if iu_organizationId user \<notin> set (map o_id (db_organizations db))
         then (Inl Foreign_key_violation, db1)
         else (Inr newUser, db1\<lparr>db_users := db_users db @ [newUser]\<rparr>))"

text \<open>
  \<^verbatim>\<open>await db.delete(groups).where(eq(groups.id, id)); return true;\<close>
\<close>

definition db_deleteGroup :: "int \<Rightarrow> Database \<Rightarrow> (db_error + bool) \<times> Database" where
  "db_deleteGroup eid db =
     (if eid \<in> set (map g_id (db_groups db)) \<and> eid \<in> set (map c_targetGroupId (db_campaigns db))
      then (Inl Foreign_key_violation, db)
      else
        (let gone = map t_id (filter (\<lambda>target. t_groupId target = eid) (db_targets db))
         in (Inr True,
             db\<lparr>db_groups := filter (\<lambda>grp. g_id grp \<noteq> eid) (db_groups db),
                db_targets := filter (\<lambda>target. t_groupId target \<noteq> eid) (db_targets db),
                db_campaignResults :=
                  filter (\<lambda>result. cr_targetId result \<notin> set gone) (db_campaignResults db)\<rparr>)))"

text \<open>
  \<^verbatim>\<open>listGroups\<close>: the groups of the organization, then one \<^verbatim>\<open>count()\<close> over
  the targets of each (\<^verbatim>\<open>Number(countResult.count) || 0\<close> is the count).
\<close>

definition db_listGroups :: "int \<Rightarrow> Database \<Rightarrow> GroupWithCount list" where
  "db_listGroups organizationId db =
     (let groupsList = filter (\<lambda>grp. g_organizationId grp = organizationId) (db_groups db)
      in map (\<lambda>grp.
                Group.extend grp
                  \<lparr>targetCount =
                     length (filter (\<lambda>target. t_groupId target = g_id grp) (db_targets db))\<rparr>)
           groupsList)"

text \<open>
  The update methods all have one shape:
  \<^verbatim>\<open>db.update(t).set({...data, updatedAt: new Date()}).where(eq(t.id, id)).returning()\<close>,
  and the first returned row, or \<^verbatim>\<open>undefined\<close>, is the result. The statement
  assigns, in every row with the id, the columns the data carries and \<^verbatim>\<open>updatedAt\<close>.
  Which results the engine refuses for a constraint of the schema is a parameter
  here: \<open>constraints db'\<close> is the violation it finds in the tables after the statement,
  if any.
\<close>

definition db_update_rows :: "('row \<Rightarrow> int) \<Rightarrow> ('row \<Rightarrow> 'row) \<Rightarrow> int \<Rightarrow> 'row list \<Rightarrow> 'row list" where
  "db_update_rows id_of assign eid rows =
     map (\<lambda>row. if id_of row = eid then assign row else row) rows"

definition db_returning :: "('row \<Rightarrow> int) \<Rightarrow> ('row \<Rightarrow> 'row) \<Rightarrow> int \<Rightarrow> 'row list \<Rightarrow> 'row list" where
  "db_returning id_of assign eid rows = map assign (filter (\<lambda>row. id_of row = eid) rows)"

definition db_updateUser ::
  "(Database \<Rightarrow> db_error option) \<Rightarrow> Date \<Rightarrow> int \<Rightarrow> PartialUser \<Rightarrow> Database
     \<Rightarrow> (db_error + User option) \<times> Database" where
  "db_updateUser constraints now eid data db =
     (let assign = (\<lambda>user. spread_User user data now);
          db' = db\<lparr>db_users := db_update_rows u_id assign eid (db_users db)\<rparr>
      in case constraints db' of
           Some violation \<Rightarrow> (Inl violation, db)
         | None \<Rightarrow> (Inr (first_row (db_returning u_id assign eid (db_users db))), db'))"

definition db_updateGroup ::
  "(Database \<Rightarrow> db_error option) \<Rightarrow> Date \<Rightarrow> int \<Rightarrow> PartialGroup \<Rightarrow> Database
     \<Rightarrow> (db_error + Group option) \<times> Database" where
  "db_updateGroup constraints now eid data db =
     (let assign = (\<lambda>grp. spread_Group grp data now);
          db' = db\<lparr>db_groups := db_update_rows g_id assign eid (db_groups db)\<rparr>
      in case constraints db' of
           Some violation \<Rightarrow> (Inl violation, db)
         | None \<Rightarrow> (Inr (first_row (db_returning g_id assign eid (db_groups db))), db'))"

definition db_updateTarget ::
  "(Database \<Rightarrow> db_error option) \<Rightarrow> Date \<Rightarrow> int \<Rightarrow> PartialTarget \<Rightarrow> Database
     \<Rightarrow> (db_error + Target option) \<times> Database" where
  "db_updateTarget constraints now eid data db =
     (let assign = (\<lambda>target. spread_Target target data now);
          db' = db\<lparr>db_targets := db_update_rows t_id assign eid (db_targets db)\<rparr>
      in case constraints db' of
           Some violation \<Rightarrow> (Inl violation, db)
         | None \<Rightarrow> (Inr (first_row (db_returning t_id assign eid (db_targets db))), db'))"

definition db_updateSmtpProfile ::
  "(Database \<Rightarrow> db_error option) \<Rightarrow> Date \<Rightarrow> int \<Rightarrow> PartialSmtpProfile \<Rightarrow> Database
     \<Rightarrow> (db_error + SmtpProfile option) \<times> Database" where
  "db_updateSmtpProfile constraints now eid data db =
     (let assign = (\<lambda>profile. spread_SmtpProfile profile data now);
          db' = db\<lparr>db_smtpProfiles := db_update_rows sp_id assign eid (db_smtpProfiles db)\<rparr>
      in case constraints db' of
           Some violation \<Rightarrow> (Inl violation, db)
         | None \<Rightarrow> (Inr (first_row (db_returning sp_id assign eid (db_smtpProfiles db))), db'))"

definition db_updateEmailTemplate ::
  "(Database \<Rightarrow> db_error option) \<Rightarrow> Date \<Rightarrow> int \<Rightarrow> PartialEmailTemplate \<Rightarrow> Database
     \<Rightarrow> (db_error + EmailTemplate option) \<times> Database" where
  "db_updateEmailTemplate constraints now eid data db =
     (let assign = (\<lambda>template. spread_EmailTemplate template data now);
          db' = db\<lparr>db_emailTemplates := db_update_rows et_id assign eid (db_emailTemplates db)\<rparr>
      in case constraints db' of
           Some violation \<Rightarrow> (Inl violation, db)
         | None \<Rightarrow> (Inr (first_row (db_returning et_id assign eid (db_emailTemplates db))), db'))"

definition db_updateLandingPage ::
  "(Database \<Rightarrow> db_error option) \<Rightarrow> Date \<Rightarrow> int \<Rightarrow> PartialLandingPage \<Rightarrow> Database
     \<Rightarrow> (db_error + LandingPage option) \<times> Database" where
  "db_updateLandingPage constraints now eid data db =
     (let assign = (\<lambda>page. spread_LandingPage page data now);
          db' = db\<lparr>db_landingPages := db_update_rows lp_id assign eid (db_landingPages db)\<rparr>
      in case constraints db' of
           Some violation \<Rightarrow> (Inl violation, db)
         | None \<Rightarrow> (Inr (first_row (db_returning lp_id assign eid (db_landingPages db))), db'))"

definition db_updateCampaign ::
  "(Database \<Rightarrow> db_error option) \<Rightarrow> Date \<Rightarrow> int \<Rightarrow> PartialCampaign \<Rightarrow> Database
     \<Rightarrow> (db_error + Campaign option) \<times> Database" where
  "db_updateCampaign constraints now eid data db =
     (let assign = (\<lambda>campaign. spread_Campaign campaign data now);
          db' = db\<lparr>db_campaigns := db_update_rows c_id assign eid (db_campaigns db)\<rparr>
      in case constraints db' of
           Some violation \<Rightarrow> (Inl violation, db)
         | None \<Rightarrow> (Inr (first_row (db_returning c_id assign eid (db_campaigns db))), db'))"

definition db_updateCampaignResult ::
  "(Database \<Rightarrow> db_error option) \<Rightarrow> Date \<Rightarrow> int \<Rightarrow> PartialCampaignResult \<Rightarrow> Database
     \<Rightarrow> (db_error + CampaignResult option) \<times> Database" where
  "db_updateCampaignResult constraints now eid data db =
     (let assign = (\<lambda>result. spread_CampaignResult result data now);
          db' = db\<lparr>db_campaignResults := db_update_rows cr_id assign eid (db_campaignResults db)\<rparr>
      in case constraints db' of
           Some violation \<Rightarrow> (Inl violation, db)
         | None \<Rightarrow> (Inr (first_row (db_returning cr_id assign eid (db_campaignResults db))), db'))"

section \<open>Vocabulary of the properties\<close>

text \<open>
  A field of an updated entity is \<open>merged\<close> when it is the value the data supplies,
  or the value before the update where the data supplies none.
\<close>

definition merged :: "'a option \<Rightarrow> 'a \<Rightarrow> 'a \<Rightarrow> bool" where
  "merged supplied before after = (case supplied of None \<Rightarrow> after = before | Some v \<Rightarrow> after = v)"

text \<open>Every map of the store is a \<^verbatim>\<open>Map\<close>: one entry per key.\<close>

definition store_ok :: "MemStorage \<Rightarrow> bool" where
  "store_ok s =
     (Map_ok (users s) \<and> Map_ok (organizations s) \<and> Map_ok (groups s) \<and> Map_ok (targets s)
      \<and> Map_ok (smtpProfiles s) \<and> Map_ok (emailTemplates s) \<and> Map_ok (landingPages s)
      \<and> Map_ok (campaigns s) \<and> Map_ok (campaignResults s))"






section \<open>Sample data\<close>

definition sample_organization :: InsertOrganization where
  "sample_organization = \<lparr>io_name = ''Acme''\<rparr>"

definition sample_user :: InsertUser where
  "sample_user =
     \<lparr>iu_email = ''ada@acme.com'', iu_password = ''hash'', iu_firstName = ''Ada'',
      iu_lastName = ''King'', iu_isAdmin = None, iu_organizationName = ''Acme'',
      iu_organizationId = 1\<rparr>"

text \<open>
  \<^verbatim>\<open>createOrganization({name: "Acme"})\<close>, then \<^verbatim>\<open>createUser\<close> of a user of that
  organization, on a fresh store of either kind.
\<close>

definition store_with_user :: MemStorage where
  "store_with_user =
     snd (createUser 1001 sample_user
       (snd (createOrganization 1000 sample_organization new_MemStorage)))"

definition database_with_user :: Database where
  "database_with_user =
     snd (db_createUser 1001 sample_user
       (snd (db_createOrganization 1000 sample_organization new_Database)))"

definition sample_group :: InsertGroup where
  "sample_group = \<lparr>ig_name = ''Sales'', ig_description = None\<rparr>"

text \<open>The store after \<^verbatim>\<open>createGroup(7, {name: "Sales"})\<close> on a fresh store, at time 1000.\<close>

definition store_with_group :: MemStorage where
  "store_with_group = snd (createGroup 1000 7 sample_group new_MemStorage)"

text \<open>\<^verbatim>\<open>{updatedAt: new Date(1500)}\<close>\<close>

definition sample_touch :: PartialGroup where
  "sample_touch =
     \<lparr>pg_id = None, pg_name = None, pg_description = None, pg_organizationId = None,
      pg_createdAt = None, pg_updatedAt = Some 1500\<rparr>"

text \<open>\<^verbatim>\<open>{id: 40, name: "Ops", organizationId: 9}\<close>\<close>

definition sample_move :: PartialGroup where
  "sample_move =
     \<lparr>pg_id = Some 40, pg_name = Some ''Ops'', pg_description = None, pg_organizationId = Some 9,
      pg_createdAt = None, pg_updatedAt = None\<rparr>"

definition sample_target :: "string \<Rightarrow> InsertTarget" where
  "sample_target email =
     \<lparr>it_firstName = ''Ann'', it_lastName = ''Lee'', it_email = email, it_position = None\<rparr>"

text \<open>Three targets created in the group of \<open>store_with_group\<close>.\<close>

definition store_with_targets :: MemStorage where
  "store_with_targets =
     snd (createTarget 1003 7 1 (sample_target ''c@x.com'')
       (snd (createTarget 1002 7 1 (sample_target ''b@x.com'')
         (snd (createTarget 1001 7 1 (sample_target ''a@x.com'') store_with_group)))))"

text \<open>
  A database that holds the rows of \<open>store_with_targets\<close>, and the organization they
  belong to.
\<close>

definition database_with_targets :: Database where
  "database_with_targets =
     new_Database\<lparr>db_organizations :=
                     [\<lparr>o_id = 7, o_name = ''Acme'', o_createdAt = 900, o_updatedAt = 900\<rparr>],
                   db_groups := Map_values (groups store_with_targets),
                   db_targets := Map_values (targets store_with_targets)\<rparr>"

text \<open>\<^verbatim>\<open>{name: "Ops", description: "Operations"}\<close>\<close>

definition sample_rename :: PartialGroup where
  "sample_rename =
     \<lparr>pg_id = None, pg_name = Some ''Ops'', pg_description = Some (Some ''Operations''),
      pg_organizationId = None, pg_createdAt = None, pg_updatedAt = None\<rparr>"

definition sample_profile :: InsertSmtpProfile where
  "sample_profile =
     \<lparr>isp_name = ''Relay'', isp_host = ''smtp.acme.com'', isp_port = 587, isp_username = ''u'',
      isp_password = ''p'', isp_fromName = ''IT'', isp_fromEmail = ''it@acme.com''\<rparr>"

definition sample_template :: InsertEmailTemplate where
  "sample_template =
     \<lparr>iet_name = ''Reset'', iet_subject = ''Password'', iet_htmlContent = ''<p>hi</p>'',
      iet_textContent = None, iet_senderName = ''IT'', iet_senderEmail = ''it@acme.com''\<rparr>"

definition sample_page :: InsertLandingPage where
  "sample_page =
     \<lparr>ilp_name = ''Login'', ilp_description = None, ilp_htmlContent = ''<form/>'',
      ilp_redirectUrl = None, ilp_pageType = ''login'', ilp_thumbnail = None\<rparr>"

text \<open>
  Organization 7 owns group 1, SMTP profile 2, email template 3 and landing page 5;
  landing page 4 belongs to organization 8.
\<close>

definition store_with_references :: MemStorage where
  "store_with_references =
     snd (createLandingPage 1004 7 5 sample_page
       (snd (createLandingPage 1003 8 5 sample_page
         (snd (createEmailTemplate 1002 7 5 sample_template
           (snd (createSmtpProfile 1001 7 sample_profile store_with_group)))))))"

text \<open>A campaign over group 1, profile 2, template 3 and the foreign landing page 4.\<close>

definition sample_campaign :: InsertCampaign where
  "sample_campaign =
     \<lparr>ic_name = ''Q1'', ic_targetGroupId = 1, ic_smtpProfileId = 2, ic_emailTemplateId = 3,
      ic_landingPageId = 4, ic_scheduledAt = None, ic_endDate = None\<rparr>"


text \<open>A file whose one data row is short of a field: the parser reports it.\<close>

definition sample_bad_upload :: ParseResult where
  "sample_bad_upload =
     \<lparr>pr_data = [[(''email'', ''a@x.com''), (''firstName'', ''A'')]],
      pr_errors =
        [\<lparr>pe_type = ''FieldMismatch'', pe_code = ''TooFewFields'',
          pe_message = ''Too few fields: expected 3 fields but parsed 2'', pe_row = 0\<rparr>]\<rparr>"

section \<open>Facts about \<^verbatim>\<open>Map\<close>\<close>


lemma Map_get_map_of: "Map_get m k = map_of m k"
  by (induction m) auto

lemma Map_set_update: "Map_set k v m = AList.update k v m"
  by (induction m) auto

lemma Map_get_Map_set: "Map_get (Map_set k v m) k' = (if k' = k then Some v else Map_get m k')"
  by (simp add: Map_get_map_of Map_set_update update_conv')

lemma keys_Map_set: "fst ` set (Map_set k v m) = insert k (fst ` set m)"
  by (simp add: Map_set_update dom_update)

lemma Map_get_None_iff: "Map_get m k = None \<longleftrightarrow> k \<notin> fst ` set m"
  by (simp add: Map_get_map_of map_of_eq_None_iff)



lemma Map_ok_Map_set: "Map_ok m \<Longrightarrow> Map_ok (Map_set k v m)"
  by (simp add: Map_ok_def Map_set_update distinct_update)

lemma Map_ok_filter: "Map_ok m \<Longrightarrow> Map_ok (filter p m)"
  by (simp add: Map_ok_def distinct_map_filter)

lemma snd_Map_delete: "snd (Map_delete k m) = filter (\<lambda>(k', v). k' \<noteq> k) m"
  by (simp add: Map_delete_def)

lemma fst_Map_delete: "fst (Map_delete k m) = (k \<in> fst ` set m)"
  by (simp add: Map_delete_def Map_has_def Map_get_None_iff)



lemma values_Map_set:
  "x \<in> set (Map_values (Map_set k v m)) \<Longrightarrow> x = v \<or> x \<in> set (Map_values m)"
  unfolding Map_values_def
proof (induction m)
  case Nil
  then show ?case by simp
next
  case (Cons e m)
  then show ?case by (cases e) (auto split: if_splits)
qed

lemma Map_set_fresh: "k \<notin> fst ` set m \<Longrightarrow> Map_set k v m = m @ [(k, v)]"
  by (induction m) auto

lemma count_values_card:
  "Map_ok m \<Longrightarrow> length (filter p (Map_values m)) = card {k. \<exists>v. Map_get m k = Some v \<and> p v}"
proof (induction m)
  case Nil
  then show ?case by (simp add: Map_values_def)
next
  case (Cons e m)
  obtain k v where e: "e = (k, v)" by (cases e)
  from Cons.prems have ok: "Map_ok m" and fresh: "k \<notin> fst ` set m"
    by (auto simp: Map_ok_def e)
  let ?A = "{k'. \<exists>v'. Map_get m k' = Some v' \<and> p v'}"
  have sub: "?A \<subseteq> fst ` set m"
  proof
    fix x assume "x \<in> ?A"
    then have "Map_get m x \<noteq> None" by auto
    then show "x \<in> fst ` set m" by (simp add: Map_get_None_iff)
  qed
  have fin: "finite ?A" by (rule finite_subset[OF sub]) simp
  have notin: "k \<notin> ?A" using fresh sub by blast
  have split: "{k'. \<exists>v'. Map_get (e # m) k' = Some v' \<and> p v'} = (if p v then insert k ?A else ?A)"
    using notin by (auto simp: e)
  have "length (filter p (Map_values (e # m))) = (if p v then 1 else 0) + length (filter p (Map_values m))"
    by (simp add: Map_values_def e)
  also have "\<dots> = (if p v then 1 else 0) + card ?A"
    using Cons.IH[OF ok] by simp
  also have "\<dots> = card (if p v then insert k ?A else ?A)"
    using fin notin by simp
  finally show ?case by (simp only: split)
qed

lemma delete_targets_of_filter:
  "delete_targets_of gid es m =
     filter (\<lambda>(k, v). k \<notin> fst ` {e \<in> set es. t_groupId (snd e) = gid}) m"
proof (induction es arbitrary: m)
  case Nil
  then show ?case by simp
next
  case (Cons e es)
  obtain k v where e: "e = (k, v)" by (cases e)
  have "delete_targets_of gid (e # es) m =
      filter (\<lambda>(k', v'). k' \<notin> fst ` {e \<in> set es. t_groupId (snd e) = gid})
        (if t_groupId v = gid then filter (\<lambda>(k', v'). k' \<noteq> k) m else m)"
    by (simp add: e Cons.IH snd_Map_delete)
  also have "\<dots> = filter (\<lambda>(k', v'). k' \<notin> fst ` {x \<in> set (e # es). t_groupId (snd x) = gid}) m"
    by (cases "t_groupId v = gid") (auto simp: e image_iff intro!: filter_cong)
  finally show ?case .
qed


lemma delete_results_of_filter:
  "delete_results_of cid es m =
     filter (\<lambda>(k, v). k \<notin> fst ` {e \<in> set es. cr_campaignId (snd e) = cid}) m"
proof (induction es arbitrary: m)
  case Nil
  then show ?case by simp
next
  case (Cons e es)
  obtain k v where e: "e = (k, v)" by (cases e)
  have "delete_results_of cid (e # es) m =
      filter (\<lambda>(k', v'). k' \<notin> fst ` {e \<in> set es. cr_campaignId (snd e) = cid})
        (if cr_campaignId v = cid then filter (\<lambda>(k', v'). k' \<noteq> k) m else m)"
    by (simp add: e Cons.IH snd_Map_delete)
  also have "\<dots> = filter (\<lambda>(k', v'). k' \<notin> fst ` {x \<in> set (e # es). cr_campaignId (snd x) = cid}) m"
    by (cases "cr_campaignId v = cid") (auto simp: e image_iff intro!: filter_cong)
  finally show ?case .
qed




lemma Map_ok_Map_delete: "Map_ok m \<Longrightarrow> Map_ok (snd (Map_delete k m))"
  by (simp add: snd_Map_delete Map_ok_filter)

lemma merged_spread: "merged supplied before (spread before supplied)"
  by (simp add: merged_def spread_def split: option.splits)

lemma first_row_map_Some:
  "first_row (map f rows) = Some r \<Longrightarrow> \<exists>row. r = f row"
  by (cases rows) (auto simp: first_row_def)

lemma count_rows_card:
  "distinct (map id_of rows) \<Longrightarrow>
   length (filter p rows) = card {i. \<exists>row. row \<in> set rows \<and> id_of row = i \<and> p row}"
proof (induction rows)
  case Nil
  then show ?case by simp
next
  case (Cons r rows)
  let ?A = "{i. \<exists>row. row \<in> set rows \<and> id_of row = i \<and> p row}"
  from Cons.prems have d: "distinct (map id_of rows)" and fresh: "id_of r \<notin> id_of ` set rows"
    by auto
  have sub: "?A \<subseteq> id_of ` set rows" by auto
  have fin: "finite ?A" by (rule finite_subset[OF sub]) simp
  have notin: "id_of r \<notin> ?A" using fresh sub by blast
  have split: "{i. \<exists>row. row \<in> set (r # rows) \<and> id_of row = i \<and> p row}
      = (if p r then insert (id_of r) ?A else ?A)"
    by auto
  have "length (filter p (r # rows)) = (if p r then 1 else 0) + card ?A"
    using Cons.IH[OF d] by simp
  also have "\<dots> = card (if p r then insert (id_of r) ?A else ?A)"
    using fin notin by simp
  finally show ?case by (simp only: split)
qed

section \<open>The sample stores, evaluated\<close>


lemma store_with_group_eq:
  "store_with_group =
     \<lparr>users = [], organizations = [],
      groups = [(1, \<lparr>g_id = 1, g_name = ''Sales'', g_description = None, g_organizationId = 7,
                      g_createdAt = 1000, g_updatedAt = 1000\<rparr>)],
      targets = [], smtpProfiles = [], emailTemplates = [], landingPages = [], campaigns = [],
      campaignResults = [], currentId = 2\<rparr>"
  by (simp add: store_with_group_def createGroup_def new_MemStorage_def sample_group_def
      or_null_def Let_def)

lemma sample_group_present:
  "getGroup 1 store_with_group =
     Some \<lparr>g_id = 1, g_name = ''Sales'', g_description = None, g_organizationId = 7,
           g_createdAt = 1000, g_updatedAt = 1000\<rparr>"
  by (simp add: store_with_group_eq getGroup_def)

lemma store_with_targets_eq:
  "store_with_targets =
     \<lparr>users = [], organizations = [],
      groups = [(1, \<lparr>g_id = 1, g_name = ''Sales'', g_description = None, g_organizationId = 7,
                      g_createdAt = 1000, g_updatedAt = 1000\<rparr>)],
      targets =
        [(2, \<lparr>t_id = 2, t_firstName = ''Ann'', t_lastName = ''Lee'', t_email = ''a@x.com'',
               t_position = None, t_groupId = 1, t_organizationId = 7,
               t_createdAt = 1001, t_updatedAt = 1001\<rparr>),
         (3, \<lparr>t_id = 3, t_firstName = ''Ann'', t_lastName = ''Lee'', t_email = ''b@x.com'',
               t_position = None, t_groupId = 1, t_organizationId = 7,
               t_createdAt = 1002, t_updatedAt = 1002\<rparr>),
         (4, \<lparr>t_id = 4, t_firstName = ''Ann'', t_lastName = ''Lee'', t_email = ''c@x.com'',
               t_position = None, t_groupId = 1, t_organizationId = 7,
               t_createdAt = 1003, t_updatedAt = 1003\<rparr>)],
      smtpProfiles = [], emailTemplates = [], landingPages = [], campaigns = [],
      campaignResults = [], currentId = 5\<rparr>"
  by (simp add: store_with_targets_def store_with_group_eq createTarget_def sample_target_def
      or_null_def Let_def)

lemma store_with_user_eq:
  "store_with_user =
     \<lparr>users = [(2, \<lparr>u_id = 2, u_email = ''ada@acme.com'', u_password = ''hash'',
                     u_firstName = ''Ada'', u_lastName = ''King'', u_isAdmin = False,
                     u_organizationId = 1, u_organizationName = ''Acme'',
                     u_createdAt = 1001, u_updatedAt = 1001\<rparr>)],
      organizations = [(1, \<lparr>o_id = 1, o_name = ''Acme'', o_createdAt = 1000,
                              o_updatedAt = 1000\<rparr>)],
      groups = [], targets = [], smtpProfiles = [], emailTemplates = [], landingPages = [],
      campaigns = [], campaignResults = [], currentId = 3\<rparr>"
  by (simp add: store_with_user_def createUser_def createOrganization_def new_MemStorage_def
      sample_user_def sample_organization_def or_false_def Let_def)

lemma database_with_user_eq:
  "database_with_user =
     \<lparr>db_users = [\<lparr>u_id = 1, u_email = ''ada@acme.com'', u_password = ''hash'',
                     u_firstName = ''Ada'', u_lastName = ''King'', u_isAdmin = False,
                     u_organizationId = 1, u_organizationName = ''Acme'',
                     u_createdAt = 1001, u_updatedAt = 1001\<rparr>],
      db_organizations = [\<lparr>o_id = 1, o_name = ''Acme'', o_createdAt = 1000,
                              o_updatedAt = 1000\<rparr>],
      db_groups = [], db_targets = [], db_smtpProfiles = [], db_emailTemplates = [],
      db_landingPages = [], db_campaigns = [], db_campaignResults = [],
      users_id_seq = 2, organizations_id_seq = 2\<rparr>"
  by (simp add: database_with_user_def db_createUser_def db_createOrganization_def
      new_Database_def sample_user_def sample_organization_def or_false_def Let_def)

lemma database_with_targets_eq:
  "database_with_targets =
     \<lparr>db_users = [],
      db_organizations =
        [\<lparr>o_id = 7, o_name = ''Acme'', o_createdAt = 900, o_updatedAt = 900\<rparr>],
      db_groups = [\<lparr>g_id = 1, g_name = ''Sales'', g_description = None, g_organizationId = 7,
                     g_createdAt = 1000, g_updatedAt = 1000\<rparr>],
      db_targets =
        [\<lparr>t_id = 2, t_firstName = ''Ann'', t_lastName = ''Lee'', t_email = ''a@x.com'',
          t_position = None, t_groupId = 1, t_organizationId = 7,
          t_createdAt = 1001, t_updatedAt = 1001\<rparr>,
         \<lparr>t_id = 3, t_firstName = ''Ann'', t_lastName = ''Lee'', t_email = ''b@x.com'',
          t_position = None, t_groupId = 1, t_organizationId = 7,
          t_createdAt = 1002, t_updatedAt = 1002\<rparr>,
         \<lparr>t_id = 4, t_firstName = ''Ann'', t_lastName = ''Lee'', t_email = ''c@x.com'',
          t_position = None, t_groupId = 1, t_organizationId = 7,
          t_createdAt = 1003, t_updatedAt = 1003\<rparr>],
      db_smtpProfiles = [], db_emailTemplates = [], db_landingPages = [],
      db_campaigns = [], db_campaignResults = [], users_id_seq = 1,
      organizations_id_seq = 1\<rparr>"
  by (simp add: database_with_targets_def store_with_targets_eq new_Database_def Map_values_def)

lemma toLowerCase_ada:
  "toLowerCase ''ADA@ACME.COM'' = ''ada@acme.com''"
  "toLowerCase ''ada@acme.com'' = ''ada@acme.com''"
  "toLowerCase ''ACME'' = ''acme''"
  "toLowerCase ''Acme'' = ''acme''"
  by (simp_all add: toLowerCase_def lower_char_def)


section \<open>The store keeps its maps well formed\<close>


lemma deleteGroup_state:
  "snd (deleteGroup gid s) =
     s\<lparr>targets := delete_targets_of gid (targets s) (targets s),
       groups := snd (Map_delete gid (groups s))\<rparr>"
  by (simp add: deleteGroup_def Let_def split: prod.splits)

lemma deleteCampaign_state:
  "snd (deleteCampaign cid s) =
     s\<lparr>campaignResults := delete_results_of cid (campaignResults s) (campaignResults s),
       campaigns := snd (Map_delete cid (campaigns s))\<rparr>"
  by (simp add: deleteCampaign_def Let_def split: prod.splits)

lemma store_ok_new: "store_ok new_MemStorage"
  by (simp add: store_ok_def new_MemStorage_def Map_ok_def)

lemma store_ok_create:
  assumes "store_ok s"
  shows "store_ok (snd (createUser now iu s))"
    and "store_ok (snd (createOrganization now io s))"
    and "store_ok (snd (createGroup now organizationId ig s))"
    and "store_ok (snd (createTarget now organizationId groupId it s))"
    and "store_ok (snd (createSmtpProfile now organizationId isp s))"
    and "store_ok (snd (createEmailTemplate now organizationId userId iet s))"
    and "store_ok (snd (createLandingPage now organizationId userId ilp s))"
    and "store_ok (snd (createCampaign now organizationId userId ic s))"
    and "store_ok (snd (createCampaignResult now organizationId icr s))"
  using assms
  by (simp_all add: store_ok_def createUser_def createOrganization_def createGroup_def
      createTarget_def createSmtpProfile_def createEmailTemplate_def createLandingPage_def
      createCampaign_def createCampaignResult_def Let_def Map_ok_Map_set)

lemma store_ok_update:
  assumes "store_ok s"
  shows "store_ok (snd (updateUser now eid du s))"
    and "store_ok (snd (updateGroup now eid dg s))"
    and "store_ok (snd (updateTarget now eid dt s))"
    and "store_ok (snd (updateSmtpProfile now eid dsp s))"
    and "store_ok (snd (updateEmailTemplate now eid det s))"
    and "store_ok (snd (updateLandingPage now eid dlp s))"
    and "store_ok (snd (updateCampaign now eid dc s))"
    and "store_ok (snd (updateCampaignResult now eid dcr s))"
  using assms
  by (simp_all add: store_ok_def updateUser_def updateGroup_def updateTarget_def
      updateSmtpProfile_def updateEmailTemplate_def updateLandingPage_def updateCampaign_def
      updateCampaignResult_def Let_def Map_ok_Map_set split: option.splits)

lemma store_ok_delete:
  assumes "store_ok s"
  shows "store_ok (snd (deleteUser eid s))"
    and "store_ok (snd (deleteGroup eid s))"
    and "store_ok (snd (deleteTarget eid s))"
    and "store_ok (snd (deleteSmtpProfile eid s))"
    and "store_ok (snd (deleteEmailTemplate eid s))"
    and "store_ok (snd (deleteLandingPage eid s))"
    and "store_ok (snd (deleteCampaign eid s))"
  using assms
  by (simp_all add: store_ok_def deleteUser_def deleteGroup_state deleteTarget_def
      deleteSmtpProfile_def deleteEmailTemplate_def deleteLandingPage_def deleteCampaign_state
      Map_delete_def Let_def Map_ok_filter delete_targets_of_filter delete_results_of_filter)

section \<open>C1: tenant isolation of reads\<close>






section \<open>C2: campaign creation checks its four references before it writes\<close>


lemma store_with_references_eq:
  "store_with_references =
     \<lparr>users = [], organizations = [],
      groups = [(1, \<lparr>g_id = 1, g_name = ''Sales'', g_description = None, g_organizationId = 7,
                      g_createdAt = 1000, g_updatedAt = 1000\<rparr>)],
      targets = [],
      smtpProfiles = [(2, \<lparr>sp_id = 2, sp_name = ''Relay'', sp_host = ''smtp.acme.com'',
                            sp_port = 587, sp_username = ''u'', sp_password = ''p'',
                            sp_fromName = ''IT'', sp_fromEmail = ''it@acme.com'',
                            sp_organizationId = 7, sp_createdAt = 1001, sp_updatedAt = 1001\<rparr>)],
      emailTemplates = [(3, \<lparr>et_id = 3, et_name = ''Reset'', et_subject = ''Password'',
                              et_htmlContent = ''<p>hi</p>'', et_textContent = None,
                              et_senderName = ''IT'', et_senderEmail = ''it@acme.com'',
                              et_organizationId = 7, et_createdById = Some 5,
                              et_createdAt = 1002, et_updatedAt = 1002\<rparr>)],
      landingPages = [(4, \<lparr>lp_id = 4, lp_name = ''Login'', lp_description = None,
                            lp_htmlContent = ''<form/>'', lp_redirectUrl = None,
                            lp_pageType = ''login'', lp_thumbnail = None,
                            lp_organizationId = 8, lp_createdById = Some 5,
                            lp_createdAt = 1003, lp_updatedAt = 1003\<rparr>),
                      (5, \<lparr>lp_id = 5, lp_name = ''Login'', lp_description = None,
                            lp_htmlContent = ''<form/>'', lp_redirectUrl = None,
                            lp_pageType = ''login'', lp_thumbnail = None,
                            lp_organizationId = 7, lp_createdById = Some 5,
                            lp_createdAt = 1004, lp_updatedAt = 1004\<rparr>)],
      campaigns = [], campaignResults = [], currentId = 6\<rparr>"
  by (simp add: store_with_references_def store_with_group_eq createLandingPage_def
      createEmailTemplate_def createSmtpProfile_def sample_page_def sample_template_def
      sample_profile_def or_null_def Let_def)

lemma not_owned_iff:
  "not_owned entity organizationId_of organizationId =
     (\<not> (\<exists>e. entity = Some e \<and> organizationId_of e = organizationId))"
  by (cases entity) (simp_all add: not_owned_def)

lemma createCampaign_result:
  "createCampaign now organizationId userId d s = (campaign, s') \<Longrightarrow>
   c_status campaign = ''Draft'' \<and> c_organizationId campaign = organizationId
   \<and> c_createdById campaign = userId \<and> Map_get (campaigns s') (c_id campaign) = Some campaign"
  by (auto simp: createCampaign_def Let_def Map_get_Map_set)

text \<open>
  C2. A reference is in order when the store holds an entity under the id and the
  entity's \<^verbatim>\<open>organizationId\<close> is the caller's. For every request whose body passes
  the schema: if one of the four references is not in order, the answer is 403, the
  message names a reference that is not in order (the first in the order group, SMTP
  profile, email template, landing page), and the store is as it was; if all four are
  in order, the answer is 201 and the campaign is stored as a draft of the caller's
  organization. Hence the store changes only after all four checks have passed. (A
  body that the schema refuses is answered 400, and the store is as it was.)
\<close>


theorem post_campaigns_all_or_nothing:
  fixes d :: InsertCampaign and now :: Date and organizationId userId :: int
    and s :: MemStorage
  defines "r \<equiv> post_campaigns now organizationId userId (Inr d) s"
  defines "group_ok \<equiv>
    (\<exists>grp. getGroup (ic_targetGroupId d) s = Some grp \<and> g_organizationId grp = organizationId)"
  defines "profile_ok \<equiv>
    (\<exists>profile. getSmtpProfile (ic_smtpProfileId d) s = Some profile
       \<and> sp_organizationId profile = organizationId)"
  defines "template_ok \<equiv>
    (\<exists>template. getEmailTemplate (ic_emailTemplateId d) s = Some template
       \<and> et_organizationId template = organizationId)"
  defines "page_ok \<equiv>
    (\<exists>page. getLandingPage (ic_landingPageId d) s = Some page
       \<and> lp_organizationId page = organizationId)"
  shows
    "post_campaigns now organizationId userId (Inl issues) s =
       (\<lparr>status = 400, body = Validation_error ''Validation error'' issues\<rparr>, s)
     \<and> (\<not> (group_ok \<and> profile_ok \<and> template_ok \<and> page_ok) \<longrightarrow>
        snd r = s \<and> status (fst r) = 403
        \<and> (\<not> group_ok \<and> body (fst r) = Message ''Access denied: Invalid target group''
           \<or> group_ok \<and> \<not> profile_ok
               \<and> body (fst r) = Message ''Access denied: Invalid SMTP profile''
           \<or> group_ok \<and> profile_ok \<and> \<not> template_ok
               \<and> body (fst r) = Message ''Access denied: Invalid email template''
           \<or> group_ok \<and> profile_ok \<and> template_ok \<and> \<not> page_ok
               \<and> body (fst r) = Message ''Access denied: Invalid landing page''))
     \<and> (group_ok \<and> profile_ok \<and> template_ok \<and> page_ok \<longrightarrow>
          status (fst r) = 201
          \<and> (\<exists>campaign. body (fst r) = Created_campaign campaign
                \<and> c_status campaign = ''Draft'' \<and> c_organizationId campaign = organizationId
                \<and> c_createdById campaign = userId
                \<and> getCampaign (c_id campaign) (snd r) = Some campaign))"
proof -
  have fail: "\<not> (group_ok \<and> profile_ok \<and> template_ok \<and> page_ok) \<longrightarrow>
        snd r = s \<and> status (fst r) = 403
        \<and> (\<not> group_ok \<and> body (fst r) = Message ''Access denied: Invalid target group''
           \<or> group_ok \<and> \<not> profile_ok
               \<and> body (fst r) = Message ''Access denied: Invalid SMTP profile''
           \<or> group_ok \<and> profile_ok \<and> \<not> template_ok
               \<and> body (fst r) = Message ''Access denied: Invalid email template''
           \<or> group_ok \<and> profile_ok \<and> template_ok \<and> \<not> page_ok
               \<and> body (fst r) = Message ''Access denied: Invalid landing page'')"
    unfolding r_def group_ok_def profile_ok_def template_ok_def page_ok_def
    by (simp add: post_campaigns_def not_owned_iff)
  have pass: "group_ok \<and> profile_ok \<and> template_ok \<and> page_ok \<longrightarrow>
          status (fst r) = 201
          \<and> (\<exists>campaign. body (fst r) = Created_campaign campaign
                \<and> c_status campaign = ''Draft'' \<and> c_organizationId campaign = organizationId
                \<and> c_createdById campaign = userId
                \<and> getCampaign (c_id campaign) (snd r) = Some campaign)"
  proof
    assume ok: "group_ok \<and> profile_ok \<and> template_ok \<and> page_ok"
    obtain campaign s' where cr: "createCampaign now organizationId userId d s = (campaign, s')"
      by (cases "createCampaign now organizationId userId d s")
    from ok have "r = (\<lparr>status = 201, body = Created_campaign campaign\<rparr>, s')"
      unfolding r_def group_ok_def profile_ok_def template_ok_def page_ok_def
      by (simp add: post_campaigns_def not_owned_iff cr)
    with createCampaign_result[OF cr]
    show "status (fst r) = 201
          \<and> (\<exists>campaign. body (fst r) = Created_campaign campaign
                \<and> c_status campaign = ''Draft'' \<and> c_organizationId campaign = organizationId
                \<and> c_createdById campaign = userId
                \<and> getCampaign (c_id campaign) (snd r) = Some campaign)"
      by (simp add: getCampaign_def)
  qed
  have refused: "post_campaigns now organizationId userId (Inl issues) s =
       (\<lparr>status = 400, body = Validation_error ''Validation error'' issues\<rparr>, s)"
    by (simp add: post_campaigns_def)
  from refused fail pass show ?thesis by (intro conjI)
qed

theorem post_campaigns_all_or_nothing_witness:
  "post_campaigns 2000 7 5 (Inr sample_campaign) store_with_references =
     (\<lparr>status = 403, body = Message ''Access denied: Invalid landing page''\<rparr>,
      store_with_references)
   \<and> post_campaigns 2000 8 5
        (Inr (sample_campaign\<lparr>ic_targetGroupId := 9, ic_smtpProfileId := 9\<rparr>))
        store_with_references =
     (\<lparr>status = 403, body = Message ''Access denied: Invalid target group''\<rparr>,
      store_with_references)
   \<and> status (fst (post_campaigns 2000 7 5 (Inr (sample_campaign\<lparr>ic_landingPageId := 5\<rparr>))
        store_with_references)) = 201
   \<and> map c_status (listCampaigns 7 (snd (post_campaigns 2000 7 5
        (Inr (sample_campaign\<lparr>ic_landingPageId := 5\<rparr>)) store_with_references))) = [''Draft'']"
  using post_campaigns_all_or_nothing[where d = sample_campaign and organizationId = 7
      and s = store_with_references and now = 2000 and userId = 5]
    post_campaigns_all_or_nothing[where
      d = "sample_campaign\<lparr>ic_targetGroupId := 9, ic_smtpProfileId := 9\<rparr>"
      and organizationId = 8 and s = store_with_references and now = 2000 and userId = 5]
    post_campaigns_all_or_nothing[where d = "sample_campaign\<lparr>ic_landingPageId := 5\<rparr>"
      and organizationId = 7 and s = store_with_references and now = 2000 and userId = 5]
  by (simp add: store_with_references_eq sample_campaign_def post_campaigns_def not_owned_def
      getGroup_def getSmtpProfile_def getEmailTemplate_def getLandingPage_def
      createCampaign_def listCampaigns_def Map_values_def Let_def)

section \<open>C3, C4, C5: the CSV import\<close>




















text \<open>
  C4. When the parser reports an error for the uploaded file, no row is imported: the
  store after the request is the store before it, and the request fails. Where the
  group exists and is the caller's (the checks the handler makes first), the answer is
  400 with the message \<^verbatim>\<open>CSV parsing error\<close> and the parser's errors.
\<close>


theorem malformed_csv_rejected:
  assumes "pr_errors results \<noteq> []"
  shows
    "snd (import_handler clock organizationId groupId (Some results) s) = s
     \<and> (status (fst (import_handler clock organizationId groupId (Some results) s)) = 400
        \<or> status (fst (import_handler clock organizationId groupId (Some results) s)) = 403
        \<or> status (fst (import_handler clock organizationId groupId (Some results) s)) = 404)
     \<and> (\<forall>grp. getGroup groupId s = Some grp \<and> g_organizationId grp = organizationId \<longrightarrow>
          fst (import_handler clock organizationId groupId (Some results) s) =
            \<lparr>status = 400,
             body = Csv_parsing_error ''CSV parsing error'' (pr_errors results)\<rparr>)"
  using assms by (simp add: import_handler_def split: option.splits)

theorem malformed_csv_rejected_witness:
  "pr_errors sample_bad_upload \<noteq> []
   \<and> import_handler (\<lambda>i. 2000 + int i) 7 1 (Some sample_bad_upload) store_with_group =
       (\<lparr>status = 400,
         body = Csv_parsing_error ''CSV parsing error'' (pr_errors sample_bad_upload)\<rparr>,
        store_with_group)"
proof -
  have e: "pr_errors sample_bad_upload \<noteq> []" by (simp add: sample_bad_upload_def)
  from malformed_csv_rejected[OF e, of "\<lambda>i. 2000 + int i" 7 1 store_with_group]
    sample_group_present e
  show ?thesis by (auto simp: prod_eq_iff)
qed



section \<open>C6: the two stores compared\<close>

text \<open>
  C6 fails on the code. On a fresh store, \<^verbatim>\<open>deleteGroup(1)\<close> returns \<^verbatim>\<open>false\<close> in
  memory (\<^verbatim>\<open>Map.delete\<close> of a key that is not there) and \<^verbatim>\<open>true\<close> from the
  database (the method returns \<^verbatim>\<open>true\<close> whatever the statement deleted). After the
  same two creations, \<^verbatim>\<open>getUserByEmail("ADA@ACME.COM")\<close> finds the user
  \<^verbatim>\<open>ada@acme.com\<close> in memory (both sides lower-cased) and nothing in the database
  (\<^verbatim>\<open>eq(users.email, email)\<close>), which finds her under the exact address only;
  \<^verbatim>\<open>getOrganizationByName("ACME")\<close> differs in the same way.
\<close>

theorem store_backings_diverge:
  "fst (deleteGroup 1 new_MemStorage) = False
   \<and> fst (db_deleteGroup 1 new_Database) = Inr True
   \<and> map_option u_email (getUserByEmail ''ADA@ACME.COM'' store_with_user) = Some ''ada@acme.com''
   \<and> db_getUserByEmail ''ADA@ACME.COM'' database_with_user = None
   \<and> map_option o_name (getOrganizationByName ''ACME'' store_with_user) = Some ''Acme''
   \<and> db_getOrganizationByName ''ACME'' database_with_user = None
   \<and> map_option u_email (db_getUserByEmail ''ada@acme.com'' database_with_user)
       = Some ''ada@acme.com''"
  by (simp add: deleteGroup_def db_deleteGroup_def new_MemStorage_def new_Database_def
      Map_delete_def Map_has_def Let_def getUserByEmail_def db_getUserByEmail_def
      getOrganizationByName_def db_getOrganizationByName_def
      store_with_user_eq database_with_user_eq Map_values_def first_row_def toLowerCase_ada)

section \<open>C7: cascading deletion\<close>




section \<open>C8: the target count of \<^verbatim>\<open>listGroups\<close>\<close>

text \<open>
  C8. \<^verbatim>\<open>listGroups\<close> returns the groups of the organization, in the order of the
  map, each with a \<^verbatim>\<open>targetCount\<close> that is the number of targets in the store, at
  the time of the call, whose \<^verbatim>\<open>groupId\<close> is the group's \<^verbatim>\<open>id\<close>; so every group
  of the organization is returned with that count. The count is no field of the stored
  group. The method of the database store returns the same, over its tables. (The
  targets are counted by their keys in a well-formed map, and by their ids in a table
  whose primary key is unique.)
\<close>


theorem listGroups_targetCount:
  assumes "Map_ok (targets s)"
  shows "listGroups organizationId s =
     map (\<lambda>grp. Group.extend grp
            \<lparr>targetCount =
               card {targetId. \<exists>target. getTarget targetId s = Some target
                                 \<and> t_groupId target = g_id grp}\<rparr>)
       (filter (\<lambda>grp. g_organizationId grp = organizationId) (Map_values (groups s)))
     \<and> (\<forall>grp. grp \<in> set (Map_values (groups s)) \<and> g_organizationId grp = organizationId
           \<longrightarrow>
           Group.extend grp
             \<lparr>targetCount =
                card {targetId. \<exists>target. getTarget targetId s = Some target
                                  \<and> t_groupId target = g_id grp}\<rparr>
           \<in> set (listGroups organizationId s))
     \<and> (distinct (map t_id (db_targets db)) \<longrightarrow>
          db_listGroups organizationId db =
            map (\<lambda>grp. Group.extend grp
                   \<lparr>targetCount =
                      card {targetId. \<exists>target. target \<in> set (db_targets db)
                              \<and> t_id target = targetId \<and> t_groupId target = g_id grp}\<rparr>)
              (filter (\<lambda>grp. g_organizationId grp = organizationId) (db_groups db)))"
proof -
  have mem: "listGroups organizationId s =
     map (\<lambda>grp. Group.extend grp
            \<lparr>targetCount =
               card {targetId. \<exists>target. getTarget targetId s = Some target
                                 \<and> t_groupId target = g_id grp}\<rparr>)
       (filter (\<lambda>grp. g_organizationId grp = organizationId) (Map_values (groups s)))"
    by (simp add: listGroups_def getTarget_def count_values_card[OF assms])
  have each: "\<forall>grp. grp \<in> set (Map_values (groups s)) \<and> g_organizationId grp = organizationId
           \<longrightarrow>
           Group.extend grp
             \<lparr>targetCount =
                card {targetId. \<exists>target. getTarget targetId s = Some target
                                  \<and> t_groupId target = g_id grp}\<rparr>
           \<in> set (listGroups organizationId s)"
    unfolding mem by auto
  have db: "distinct (map t_id (db_targets db)) \<longrightarrow>
          db_listGroups organizationId db =
            map (\<lambda>grp. Group.extend grp
                   \<lparr>targetCount =
                      card {targetId. \<exists>target. target \<in> set (db_targets db)
                              \<and> t_id target = targetId \<and> t_groupId target = g_id grp}\<rparr>)
              (filter (\<lambda>grp. g_organizationId grp = organizationId) (db_groups db))"
    by (simp add: db_listGroups_def count_rows_card[where id_of = t_id])
  from mem each db show ?thesis by (intro conjI)
qed

theorem listGroups_targetCount_witness:
  "Map_ok (targets store_with_targets)
   \<and> map targetCount (listGroups 7 store_with_targets) = [3]
   \<and> card {targetId. \<exists>target. getTarget targetId store_with_targets = Some target
                                 \<and> t_groupId target = 1} = 3
   \<and> distinct (map t_id (db_targets database_with_targets))
   \<and> map targetCount (db_listGroups 7 database_with_targets) = [3]"
proof -
  have ok: "Map_ok (targets store_with_targets)"
    by (simp add: store_with_targets_eq Map_ok_def)
  have ev: "map targetCount (listGroups 7 store_with_targets) = [3]"
    by (simp add: store_with_targets_eq listGroups_def Map_values_def Group.extend_def)
  have "map targetCount (listGroups 7 store_with_targets) =
      [card {targetId. \<exists>target. getTarget targetId store_with_targets = Some target
                                 \<and> t_groupId target = 1}]"
    unfolding listGroups_targetCount[OF ok, THEN conjunct1]
    by (simp add: store_with_targets_eq Map_values_def Group.extend_def getTarget_def)
  moreover have "distinct (map t_id (db_targets database_with_targets))"
    by (simp add: database_with_targets_eq)
  moreover have "map targetCount (db_listGroups 7 database_with_targets) = [3]"
    by (simp add: database_with_targets_eq db_listGroups_def Group.extend_def)
  ultimately show ?thesis using ev ok by simp
qed

section \<open>C9, C10: the update methods\<close>

lemma updateUser_Some:
  "Map_get (users s) eid = Some user \<Longrightarrow>
   updateUser now eid data s =
     (Some (spread_User user data now), s\<lparr>users := Map_set eid (spread_User user data now) (users s)\<rparr>)"
  by (simp add: updateUser_def Let_def)

lemma updateUser_None:
  "Map_get (users s) eid = None \<Longrightarrow> updateUser now eid data s = (None, s)"
  by (simp add: updateUser_def Let_def)

lemma updateUser_frame:
  "(Map_get (users s) eid = Some user \<longrightarrow>
      (\<exists>user'. updateUser now eid dUser s = (Some user', s\<lparr>users := Map_set eid user' (users s)\<rparr>)
         \<and> getUser eid (snd (updateUser now eid dUser s)) = Some user'
         \<and> merged (pu_id dUser) (u_id user) (u_id user')
         \<and> merged (pu_email dUser) (u_email user) (u_email user')
         \<and> merged (pu_password dUser) (u_password user) (u_password user')
         \<and> merged (pu_firstName dUser) (u_firstName user) (u_firstName user')
         \<and> merged (pu_lastName dUser) (u_lastName user) (u_lastName user')
         \<and> merged (pu_isAdmin dUser) (u_isAdmin user) (u_isAdmin user')
         \<and> merged (pu_organizationId dUser) (u_organizationId user) (u_organizationId user')
         \<and> merged (pu_organizationName dUser) (u_organizationName user) (u_organizationName user')
         \<and> merged (pu_createdAt dUser) (u_createdAt user) (u_createdAt user')
         \<and> u_updatedAt user' = now))"
proof (intro impI)
  assume present: "Map_get (users s) eid = Some user"
  show "\<exists>user'. updateUser now eid dUser s = (Some user', s\<lparr>users := Map_set eid user' (users s)\<rparr>)
         \<and> getUser eid (snd (updateUser now eid dUser s)) = Some user'
         \<and> merged (pu_id dUser) (u_id user) (u_id user')
         \<and> merged (pu_email dUser) (u_email user) (u_email user')
         \<and> merged (pu_password dUser) (u_password user) (u_password user')
         \<and> merged (pu_firstName dUser) (u_firstName user) (u_firstName user')
         \<and> merged (pu_lastName dUser) (u_lastName user) (u_lastName user')
         \<and> merged (pu_isAdmin dUser) (u_isAdmin user) (u_isAdmin user')
         \<and> merged (pu_organizationId dUser) (u_organizationId user) (u_organizationId user')
         \<and> merged (pu_organizationName dUser) (u_organizationName user) (u_organizationName user')
         \<and> merged (pu_createdAt dUser) (u_createdAt user) (u_createdAt user')
         \<and> u_updatedAt user' = now"
    by (rule exI[of _ "spread_User user dUser now"])
      (simp add: updateUser_Some[OF present] getUser_def Map_get_Map_set spread_User_def merged_spread)
qed

lemma updateGroup_Some:
  "Map_get (groups s) eid = Some grp \<Longrightarrow>
   updateGroup now eid data s =
     (Some (spread_Group grp data now), s\<lparr>groups := Map_set eid (spread_Group grp data now) (groups s)\<rparr>)"
  by (simp add: updateGroup_def Let_def)

lemma updateGroup_None:
  "Map_get (groups s) eid = None \<Longrightarrow> updateGroup now eid data s = (None, s)"
  by (simp add: updateGroup_def Let_def)

lemma updateGroup_frame:
  "(Map_get (groups s) eid = Some grp \<longrightarrow>
      (\<exists>grp'. updateGroup now eid dGroup s = (Some grp', s\<lparr>groups := Map_set eid grp' (groups s)\<rparr>)
         \<and> getGroup eid (snd (updateGroup now eid dGroup s)) = Some grp'
         \<and> merged (pg_id dGroup) (g_id grp) (g_id grp')
         \<and> merged (pg_name dGroup) (g_name grp) (g_name grp')
         \<and> merged (pg_description dGroup) (g_description grp) (g_description grp')
         \<and> merged (pg_organizationId dGroup) (g_organizationId grp) (g_organizationId grp')
         \<and> merged (pg_createdAt dGroup) (g_createdAt grp) (g_createdAt grp')
         \<and> g_updatedAt grp' = now))"
proof (intro impI)
  assume present: "Map_get (groups s) eid = Some grp"
  show "\<exists>grp'. updateGroup now eid dGroup s = (Some grp', s\<lparr>groups := Map_set eid grp' (groups s)\<rparr>)
         \<and> getGroup eid (snd (updateGroup now eid dGroup s)) = Some grp'
         \<and> merged (pg_id dGroup) (g_id grp) (g_id grp')
         \<and> merged (pg_name dGroup) (g_name grp) (g_name grp')
         \<and> merged (pg_description dGroup) (g_description grp) (g_description grp')
         \<and> merged (pg_organizationId dGroup) (g_organizationId grp) (g_organizationId grp')
         \<and> merged (pg_createdAt dGroup) (g_createdAt grp) (g_createdAt grp')
         \<and> g_updatedAt grp' = now"
    by (rule exI[of _ "spread_Group grp dGroup now"])
      (simp add: updateGroup_Some[OF present] getGroup_def Map_get_Map_set spread_Group_def merged_spread)
qed

lemma updateTarget_Some:
  "Map_get (targets s) eid = Some target \<Longrightarrow>
   updateTarget now eid data s =
     (Some (spread_Target target data now), s\<lparr>targets := Map_set eid (spread_Target target data now) (targets s)\<rparr>)"
  by (simp add: updateTarget_def Let_def)

lemma updateTarget_None:
  "Map_get (targets s) eid = None \<Longrightarrow> updateTarget now eid data s = (None, s)"
  by (simp add: updateTarget_def Let_def)

lemma updateTarget_frame:
  "(Map_get (targets s) eid = Some target \<longrightarrow>
      (\<exists>target'. updateTarget now eid dTarget s = (Some target', s\<lparr>targets := Map_set eid target' (targets s)\<rparr>)
         \<and> getTarget eid (snd (updateTarget now eid dTarget s)) = Some target'
         \<and> merged (pt_id dTarget) (t_id target) (t_id target')
         \<and> merged (pt_firstName dTarget) (t_firstName target) (t_firstName target')
         \<and> merged (pt_lastName dTarget) (t_lastName target) (t_lastName target')
         \<and> merged (pt_email dTarget) (t_email target) (t_email target')
         \<and> merged (pt_position dTarget) (t_position target) (t_position target')
         \<and> merged (pt_groupId dTarget) (t_groupId target) (t_groupId target')
         \<and> merged (pt_organizationId dTarget) (t_organizationId target) (t_organizationId target')
         \<and> merged (pt_createdAt dTarget) (t_createdAt target) (t_createdAt target')
         \<and> t_updatedAt target' = now))"
proof (intro impI)
  assume present: "Map_get (targets s) eid = Some target"
  show "\<exists>target'. updateTarget now eid dTarget s = (Some target', s\<lparr>targets := Map_set eid target' (targets s)\<rparr>)
         \<and> getTarget eid (snd (updateTarget now eid dTarget s)) = Some target'
         \<and> merged (pt_id dTarget) (t_id target) (t_id target')
         \<and> merged (pt_firstName dTarget) (t_firstName target) (t_firstName target')
         \<and> merged (pt_lastName dTarget) (t_lastName target) (t_lastName target')
         \<and> merged (pt_email dTarget) (t_email target) (t_email target')
         \<and> merged (pt_position dTarget) (t_position target) (t_position target')
         \<and> merged (pt_groupId dTarget) (t_groupId target) (t_groupId target')
         \<and> merged (pt_organizationId dTarget) (t_organizationId target) (t_organizationId target')
         \<and> merged (pt_createdAt dTarget) (t_createdAt target) (t_createdAt target')
         \<and> t_updatedAt target' = now"
    by (rule exI[of _ "spread_Target target dTarget now"])
      (simp add: updateTarget_Some[OF present] getTarget_def Map_get_Map_set spread_Target_def merged_spread)
qed

lemma updateSmtpProfile_Some:
  "Map_get (smtpProfiles s) eid = Some profile \<Longrightarrow>
   updateSmtpProfile now eid data s =
     (Some (spread_SmtpProfile profile data now), s\<lparr>smtpProfiles := Map_set eid (spread_SmtpProfile profile data now) (smtpProfiles s)\<rparr>)"
  by (simp add: updateSmtpProfile_def Let_def)

lemma updateSmtpProfile_None:
  "Map_get (smtpProfiles s) eid = None \<Longrightarrow> updateSmtpProfile now eid data s = (None, s)"
  by (simp add: updateSmtpProfile_def Let_def)

lemma updateSmtpProfile_frame:
  "(Map_get (smtpProfiles s) eid = Some profile \<longrightarrow>
      (\<exists>profile'. updateSmtpProfile now eid dSmtpProfile s = (Some profile', s\<lparr>smtpProfiles := Map_set eid profile' (smtpProfiles s)\<rparr>)
         \<and> getSmtpProfile eid (snd (updateSmtpProfile now eid dSmtpProfile s)) = Some profile'
         \<and> merged (psp_id dSmtpProfile) (sp_id profile) (sp_id profile')
         \<and> merged (psp_name dSmtpProfile) (sp_name profile) (sp_name profile')
         \<and> merged (psp_host dSmtpProfile) (sp_host profile) (sp_host profile')
         \<and> merged (psp_port dSmtpProfile) (sp_port profile) (sp_port profile')
         \<and> merged (psp_username dSmtpProfile) (sp_username profile) (sp_username profile')
         \<and> merged (psp_password dSmtpProfile) (sp_password profile) (sp_password profile')
         \<and> merged (psp_fromName dSmtpProfile) (sp_fromName profile) (sp_fromName profile')
         \<and> merged (psp_fromEmail dSmtpProfile) (sp_fromEmail profile) (sp_fromEmail profile')
         \<and> merged (psp_organizationId dSmtpProfile) (sp_organizationId profile) (sp_organizationId profile')
         \<and> merged (psp_createdAt dSmtpProfile) (sp_createdAt profile) (sp_createdAt profile')
         \<and> sp_updatedAt profile' = now))"
proof (intro impI)
  assume present: "Map_get (smtpProfiles s) eid = Some profile"
  show "\<exists>profile'. updateSmtpProfile now eid dSmtpProfile s = (Some profile', s\<lparr>smtpProfiles := Map_set eid profile' (smtpProfiles s)\<rparr>)
         \<and> getSmtpProfile eid (snd (updateSmtpProfile now eid dSmtpProfile s)) = Some profile'
         \<and> merged (psp_id dSmtpProfile) (sp_id profile) (sp_id profile')
         \<and> merged (psp_name dSmtpProfile) (sp_name profile) (sp_name profile')
         \<and> merged (psp_host dSmtpProfile) (sp_host profile) (sp_host profile')
         \<and> merged (psp_port dSmtpProfile) (sp_port profile) (sp_port profile')
         \<and> merged (psp_username dSmtpProfile) (sp_username profile) (sp_username profile')
         \<and> merged (psp_password dSmtpProfile) (sp_password profile) (sp_password profile')
         \<and> merged (psp_fromName dSmtpProfile) (sp_fromName profile) (sp_fromName profile')
         \<and> merged (psp_fromEmail dSmtpProfile) (sp_fromEmail profile) (sp_fromEmail profile')
         \<and> merged (psp_organizationId dSmtpProfile) (sp_organizationId profile) (sp_organizationId profile')
         \<and> merged (psp_createdAt dSmtpProfile) (sp_createdAt profile) (sp_createdAt profile')
         \<and> sp_updatedAt profile' = now"
    by (rule exI[of _ "spread_SmtpProfile profile dSmtpProfile now"])
      (simp add: updateSmtpProfile_Some[OF present] getSmtpProfile_def Map_get_Map_set spread_SmtpProfile_def merged_spread)
qed

lemma updateEmailTemplate_Some:
  "Map_get (emailTemplates s) eid = Some template \<Longrightarrow>
   updateEmailTemplate now eid data s =
     (Some (spread_EmailTemplate template data now), s\<lparr>emailTemplates := Map_set eid (spread_EmailTemplate template data now) (emailTemplates s)\<rparr>)"
  by (simp add: updateEmailTemplate_def Let_def)

lemma updateEmailTemplate_None:
  "Map_get (emailTemplates s) eid = None \<Longrightarrow> updateEmailTemplate now eid data s = (None, s)"
  by (simp add: updateEmailTemplate_def Let_def)

lemma updateEmailTemplate_frame:
  "(Map_get (emailTemplates s) eid = Some template \<longrightarrow>
      (\<exists>template'. updateEmailTemplate now eid dEmailTemplate s = (Some template', s\<lparr>emailTemplates := Map_set eid template' (emailTemplates s)\<rparr>)
         \<and> getEmailTemplate eid (snd (updateEmailTemplate now eid dEmailTemplate s)) = Some template'
         \<and> merged (pet_id dEmailTemplate) (et_id template) (et_id template')
         \<and> merged (pet_name dEmailTemplate) (et_name template) (et_name template')
         \<and> merged (pet_subject dEmailTemplate) (et_subject template) (et_subject template')
         \<and> merged (pet_htmlContent dEmailTemplate) (et_htmlContent template) (et_htmlContent template')
         \<and> merged (pet_textContent dEmailTemplate) (et_textContent template) (et_textContent template')
         \<and> merged (pet_senderName dEmailTemplate) (et_senderName template) (et_senderName template')
         \<and> merged (pet_senderEmail dEmailTemplate) (et_senderEmail template) (et_senderEmail template')
         \<and> merged (pet_organizationId dEmailTemplate) (et_organizationId template) (et_organizationId template')
         \<and> merged (pet_createdById dEmailTemplate) (et_createdById template) (et_createdById template')
         \<and> merged (pet_createdAt dEmailTemplate) (et_createdAt template) (et_createdAt template')
         \<and> et_updatedAt template' = now))"
proof (intro impI)
  assume present: "Map_get (emailTemplates s) eid = Some template"
  show "\<exists>template'. updateEmailTemplate now eid dEmailTemplate s = (Some template', s\<lparr>emailTemplates := Map_set eid template' (emailTemplates s)\<rparr>)
         \<and> getEmailTemplate eid (snd (updateEmailTemplate now eid dEmailTemplate s)) = Some template'
         \<and> merged (pet_id dEmailTemplate) (et_id template) (et_id template')
         \<and> merged (pet_name dEmailTemplate) (et_name template) (et_name template')
         \<and> merged (pet_subject dEmailTemplate) (et_subject template) (et_subject template')
         \<and> merged (pet_htmlContent dEmailTemplate) (et_htmlContent template) (et_htmlContent template')
         \<and> merged (pet_textContent dEmailTemplate) (et_textContent template) (et_textContent template')
         \<and> merged (pet_senderName dEmailTemplate) (et_senderName template) (et_senderName template')
         \<and> merged (pet_senderEmail dEmailTemplate) (et_senderEmail template) (et_senderEmail template')
         \<and> merged (pet_organizationId dEmailTemplate) (et_organizationId template) (et_organizationId template')
         \<and> merged (pet_createdById dEmailTemplate) (et_createdById template) (et_createdById template')
         \<and> merged (pet_createdAt dEmailTemplate) (et_createdAt template) (et_createdAt template')
         \<and> et_updatedAt template' = now"
    by (rule exI[of _ "spread_EmailTemplate template dEmailTemplate now"])
      (simp add: updateEmailTemplate_Some[OF present] getEmailTemplate_def Map_get_Map_set spread_EmailTemplate_def merged_spread)
qed

lemma updateLandingPage_Some:
  "Map_get (landingPages s) eid = Some page \<Longrightarrow>
   updateLandingPage now eid data s =
     (Some (spread_LandingPage page data now), s\<lparr>landingPages := Map_set eid (spread_LandingPage page data now) (landingPages s)\<rparr>)"
  by (simp add: updateLandingPage_def Let_def)

lemma updateLandingPage_None:
  "Map_get (landingPages s) eid = None \<Longrightarrow> updateLandingPage now eid data s = (None, s)"
  by (simp add: updateLandingPage_def Let_def)

lemma updateLandingPage_frame:
  "(Map_get (landingPages s) eid = Some page \<longrightarrow>
      (\<exists>page'. updateLandingPage now eid dLandingPage s = (Some page', s\<lparr>landingPages := Map_set eid page' (landingPages s)\<rparr>)
         \<and> getLandingPage eid (snd (updateLandingPage now eid dLandingPage s)) = Some page'
         \<and> merged (plp_id dLandingPage) (lp_id page) (lp_id page')
         \<and> merged (plp_name dLandingPage) (lp_name page) (lp_name page')
         \<and> merged (plp_description dLandingPage) (lp_description page) (lp_description page')
         \<and> merged (plp_htmlContent dLandingPage) (lp_htmlContent page) (lp_htmlContent page')
         \<and> merged (plp_redirectUrl dLandingPage) (lp_redirectUrl page) (lp_redirectUrl page')
         \<and> merged (plp_pageType dLandingPage) (lp_pageType page) (lp_pageType page')
         \<and> merged (plp_thumbnail dLandingPage) (lp_thumbnail page) (lp_thumbnail page')
         \<and> merged (plp_organizationId dLandingPage) (lp_organizationId page) (lp_organizationId page')
         \<and> merged (plp_createdById dLandingPage) (lp_createdById page) (lp_createdById page')
         \<and> merged (plp_createdAt dLandingPage) (lp_createdAt page) (lp_createdAt page')
         \<and> lp_updatedAt page' = now))"
proof (intro impI)
  assume present: "Map_get (landingPages s) eid = Some page"
  show "\<exists>page'. updateLandingPage now eid dLandingPage s = (Some page', s\<lparr>landingPages := Map_set eid page' (landingPages s)\<rparr>)
         \<and> getLandingPage eid (snd (updateLandingPage now eid dLandingPage s)) = Some page'
         \<and> merged (plp_id dLandingPage) (lp_id page) (lp_id page')
         \<and> merged (plp_name dLandingPage) (lp_name page) (lp_name page')
         \<and> merged (plp_description dLandingPage) (lp_description page) (lp_description page')
         \<and> merged (plp_htmlContent dLandingPage) (lp_htmlContent page) (lp_htmlContent page')
         \<and> merged (plp_redirectUrl dLandingPage) (lp_redirectUrl page) (lp_redirectUrl page')
         \<and> merged (plp_pageType dLandingPage) (lp_pageType page) (lp_pageType page')
         \<and> merged (plp_thumbnail dLandingPage) (lp_thumbnail page) (lp_thumbnail page')
         \<and> merged (plp_organizationId dLandingPage) (lp_organizationId page) (lp_organizationId page')
         \<and> merged (plp_createdById dLandingPage) (lp_createdById page) (lp_createdById page')
         \<and> merged (plp_createdAt dLandingPage) (lp_createdAt page) (lp_createdAt page')
         \<and> lp_updatedAt page' = now"
    by (rule exI[of _ "spread_LandingPage page dLandingPage now"])
      (simp add: updateLandingPage_Some[OF present] getLandingPage_def Map_get_Map_set spread_LandingPage_def merged_spread)
qed

lemma updateCampaign_Some:
  "Map_get (campaigns s) eid = Some campaign \<Longrightarrow>
   updateCampaign now eid data s =
     (Some (spread_Campaign campaign data now), s\<lparr>campaigns := Map_set eid (spread_Campaign campaign data now) (campaigns s)\<rparr>)"
  by (simp add: updateCampaign_def Let_def)

lemma updateCampaign_None:
  "Map_get (campaigns s) eid = None \<Longrightarrow> updateCampaign now eid data s = (None, s)"
  by (simp add: updateCampaign_def Let_def)

lemma updateCampaign_frame:
  "(Map_get (campaigns s) eid = Some campaign \<longrightarrow>
      (\<exists>campaign'. updateCampaign now eid dCampaign s = (Some campaign', s\<lparr>campaigns := Map_set eid campaign' (campaigns s)\<rparr>)
         \<and> getCampaign eid (snd (updateCampaign now eid dCampaign s)) = Some campaign'
         \<and> merged (pc_id dCampaign) (c_id campaign) (c_id campaign')
         \<and> merged (pc_name dCampaign) (c_name campaign) (c_name campaign')
         \<and> merged (pc_status dCampaign) (c_status campaign) (c_status campaign')
         \<and> merged (pc_targetGroupId dCampaign) (c_targetGroupId campaign) (c_targetGroupId campaign')
         \<and> merged (pc_smtpProfileId dCampaign) (c_smtpProfileId campaign) (c_smtpProfileId campaign')
         \<and> merged (pc_emailTemplateId dCampaign) (c_emailTemplateId campaign) (c_emailTemplateId campaign')
         \<and> merged (pc_landingPageId dCampaign) (c_landingPageId campaign) (c_landingPageId campaign')
         \<and> merged (pc_scheduledAt dCampaign) (c_scheduledAt campaign) (c_scheduledAt campaign')
         \<and> merged (pc_endDate dCampaign) (c_endDate campaign) (c_endDate campaign')
         \<and> merged (pc_createdById dCampaign) (c_createdById campaign) (c_createdById campaign')
         \<and> merged (pc_organizationId dCampaign) (c_organizationId campaign) (c_organizationId campaign')
         \<and> merged (pc_createdAt dCampaign) (c_createdAt campaign) (c_createdAt campaign')
         \<and> c_updatedAt campaign' = now))"
proof (intro impI)
  assume present: "Map_get (campaigns s) eid = Some campaign"
  show "\<exists>campaign'. updateCampaign now eid dCampaign s = (Some campaign', s\<lparr>campaigns := Map_set eid campaign' (campaigns s)\<rparr>)
         \<and> getCampaign eid (snd (updateCampaign now eid dCampaign s)) = Some campaign'
         \<and> merged (pc_id dCampaign) (c_id campaign) (c_id campaign')
         \<and> merged (pc_name dCampaign) (c_name campaign) (c_name campaign')
         \<and> merged (pc_status dCampaign) (c_status campaign) (c_status campaign')
         \<and> merged (pc_targetGroupId dCampaign) (c_targetGroupId campaign) (c_targetGroupId campaign')
         \<and> merged (pc_smtpProfileId dCampaign) (c_smtpProfileId campaign) (c_smtpProfileId campaign')
         \<and> merged (pc_emailTemplateId dCampaign) (c_emailTemplateId campaign) (c_emailTemplateId campaign')
         \<and> merged (pc_landingPageId dCampaign) (c_landingPageId campaign) (c_landingPageId campaign')
         \<and> merged (pc_scheduledAt dCampaign) (c_scheduledAt campaign) (c_scheduledAt campaign')
         \<and> merged (pc_endDate dCampaign) (c_endDate campaign) (c_endDate campaign')
         \<and> merged (pc_createdById dCampaign) (c_createdById campaign) (c_createdById campaign')
         \<and> merged (pc_organizationId dCampaign) (c_organizationId campaign) (c_organizationId campaign')
         \<and> merged (pc_createdAt dCampaign) (c_createdAt campaign) (c_createdAt campaign')
         \<and> c_updatedAt campaign' = now"
    by (rule exI[of _ "spread_Campaign campaign dCampaign now"])
      (simp add: updateCampaign_Some[OF present] getCampaign_def Map_get_Map_set spread_Campaign_def merged_spread)
qed

lemma updateCampaignResult_Some:
  "Map_get (campaignResults s) eid = Some result \<Longrightarrow>
   updateCampaignResult now eid data s =
     (Some (spread_CampaignResult result data now), s\<lparr>campaignResults := Map_set eid (spread_CampaignResult result data now) (campaignResults s)\<rparr>)"
  by (simp add: updateCampaignResult_def Let_def)

lemma updateCampaignResult_None:
  "Map_get (campaignResults s) eid = None \<Longrightarrow> updateCampaignResult now eid data s = (None, s)"
  by (simp add: updateCampaignResult_def Let_def)

lemma updateCampaignResult_frame:
  "(Map_get (campaignResults s) eid = Some result \<longrightarrow>
      (\<exists>result'. updateCampaignResult now eid dCampaignResult s = (Some result', s\<lparr>campaignResults := Map_set eid result' (campaignResults s)\<rparr>)
         \<and> getCampaignResult eid (snd (updateCampaignResult now eid dCampaignResult s)) = Some result'
         \<and> merged (pcr_id dCampaignResult) (cr_id result) (cr_id result')
         \<and> merged (pcr_campaignId dCampaignResult) (cr_campaignId result) (cr_campaignId result')
         \<and> merged (pcr_targetId dCampaignResult) (cr_targetId result) (cr_targetId result')
         \<and> merged (pcr_sent dCampaignResult) (cr_sent result) (cr_sent result')
         \<and> merged (pcr_sentAt dCampaignResult) (cr_sentAt result) (cr_sentAt result')
         \<and> merged (pcr_opened dCampaignResult) (cr_opened result) (cr_opened result')
         \<and> merged (pcr_openedAt dCampaignResult) (cr_openedAt result) (cr_openedAt result')
         \<and> merged (pcr_clicked dCampaignResult) (cr_clicked result) (cr_clicked result')
         \<and> merged (pcr_clickedAt dCampaignResult) (cr_clickedAt result) (cr_clickedAt result')
         \<and> merged (pcr_submitted dCampaignResult) (cr_submitted result) (cr_submitted result')
         \<and> merged (pcr_submittedAt dCampaignResult) (cr_submittedAt result) (cr_submittedAt result')
         \<and> merged (pcr_submittedData dCampaignResult) (cr_submittedData result) (cr_submittedData result')
         \<and> merged (pcr_organizationId dCampaignResult) (cr_organizationId result) (cr_organizationId result')
         \<and> merged (pcr_createdAt dCampaignResult) (cr_createdAt result) (cr_createdAt result')
         \<and> cr_updatedAt result' = now))"
proof (intro impI)
  assume present: "Map_get (campaignResults s) eid = Some result"
  show "\<exists>result'. updateCampaignResult now eid dCampaignResult s = (Some result', s\<lparr>campaignResults := Map_set eid result' (campaignResults s)\<rparr>)
         \<and> getCampaignResult eid (snd (updateCampaignResult now eid dCampaignResult s)) = Some result'
         \<and> merged (pcr_id dCampaignResult) (cr_id result) (cr_id result')
         \<and> merged (pcr_campaignId dCampaignResult) (cr_campaignId result) (cr_campaignId result')
         \<and> merged (pcr_targetId dCampaignResult) (cr_targetId result) (cr_targetId result')
         \<and> merged (pcr_sent dCampaignResult) (cr_sent result) (cr_sent result')
         \<and> merged (pcr_sentAt dCampaignResult) (cr_sentAt result) (cr_sentAt result')
         \<and> merged (pcr_opened dCampaignResult) (cr_opened result) (cr_opened result')
         \<and> merged (pcr_openedAt dCampaignResult) (cr_openedAt result) (cr_openedAt result')
         \<and> merged (pcr_clicked dCampaignResult) (cr_clicked result) (cr_clicked result')
         \<and> merged (pcr_clickedAt dCampaignResult) (cr_clickedAt result) (cr_clickedAt result')
         \<and> merged (pcr_submitted dCampaignResult) (cr_submitted result) (cr_submitted result')
         \<and> merged (pcr_submittedAt dCampaignResult) (cr_submittedAt result) (cr_submittedAt result')
         \<and> merged (pcr_submittedData dCampaignResult) (cr_submittedData result) (cr_submittedData result')
         \<and> merged (pcr_organizationId dCampaignResult) (cr_organizationId result) (cr_organizationId result')
         \<and> merged (pcr_createdAt dCampaignResult) (cr_createdAt result) (cr_createdAt result')
         \<and> cr_updatedAt result' = now"
    by (rule exI[of _ "spread_CampaignResult result dCampaignResult now"])
      (simp add: updateCampaignResult_Some[OF present] getCampaignResult_def Map_get_Map_set spread_CampaignResult_def merged_spread)
qed

lemma db_updateUser_stamp:
  "fst (db_updateUser constraints now eid data db) = Inr (Some user') \<Longrightarrow> u_updatedAt user' = now"
  by (auto simp: db_updateUser_def db_returning_def Let_def spread_User_def
      split: option.splits dest!: first_row_map_Some)

lemma db_updateGroup_stamp:
  "fst (db_updateGroup constraints now eid data db) = Inr (Some grp') \<Longrightarrow> g_updatedAt grp' = now"
  by (auto simp: db_updateGroup_def db_returning_def Let_def spread_Group_def
      split: option.splits dest!: first_row_map_Some)

lemma db_updateTarget_stamp:
  "fst (db_updateTarget constraints now eid data db) = Inr (Some target') \<Longrightarrow> t_updatedAt target' = now"
  by (auto simp: db_updateTarget_def db_returning_def Let_def spread_Target_def
      split: option.splits dest!: first_row_map_Some)

lemma db_updateSmtpProfile_stamp:
  "fst (db_updateSmtpProfile constraints now eid data db) = Inr (Some profile') \<Longrightarrow> sp_updatedAt profile' = now"
  by (auto simp: db_updateSmtpProfile_def db_returning_def Let_def spread_SmtpProfile_def
      split: option.splits dest!: first_row_map_Some)

lemma db_updateEmailTemplate_stamp:
  "fst (db_updateEmailTemplate constraints now eid data db) = Inr (Some template') \<Longrightarrow> et_updatedAt template' = now"
  by (auto simp: db_updateEmailTemplate_def db_returning_def Let_def spread_EmailTemplate_def
      split: option.splits dest!: first_row_map_Some)

lemma db_updateLandingPage_stamp:
  "fst (db_updateLandingPage constraints now eid data db) = Inr (Some page') \<Longrightarrow> lp_updatedAt page' = now"
  by (auto simp: db_updateLandingPage_def db_returning_def Let_def spread_LandingPage_def
      split: option.splits dest!: first_row_map_Some)

lemma db_updateCampaign_stamp:
  "fst (db_updateCampaign constraints now eid data db) = Inr (Some campaign') \<Longrightarrow> c_updatedAt campaign' = now"
  by (auto simp: db_updateCampaign_def db_returning_def Let_def spread_Campaign_def
      split: option.splits dest!: first_row_map_Some)

lemma db_updateCampaignResult_stamp:
  "fst (db_updateCampaignResult constraints now eid data db) = Inr (Some result') \<Longrightarrow> cr_updatedAt result' = now"
  by (auto simp: db_updateCampaignResult_def db_returning_def Let_def spread_CampaignResult_def
      split: option.splits dest!: first_row_map_Some)

text \<open>
  C9, as amended. Every successful update, of either store, returns an entity whose
  \<^verbatim>\<open>updatedAt\<close> is the clock reading of the update, whatever the data supplies. So
  \<^verbatim>\<open>updatedAt\<close> moves strictly beyond its prior value exactly when the clock reads
  later than that value.
\<close>

theorem update_stamps_updatedAt:
  "(\<forall>user'. fst (updateUser now eid dUser s) = Some user' \<longrightarrow>
      u_updatedAt user' = now
      \<and> (\<exists>user. Map_get (users s) eid = Some user
            \<and> (u_updatedAt user < u_updatedAt user') = (u_updatedAt user < now)))
   \<and> (\<forall>grp'. fst (updateGroup now eid dGroup s) = Some grp' \<longrightarrow>
      g_updatedAt grp' = now
      \<and> (\<exists>grp. Map_get (groups s) eid = Some grp
            \<and> (g_updatedAt grp < g_updatedAt grp') = (g_updatedAt grp < now)))
   \<and> (\<forall>target'. fst (updateTarget now eid dTarget s) = Some target' \<longrightarrow>
      t_updatedAt target' = now
      \<and> (\<exists>target. Map_get (targets s) eid = Some target
            \<and> (t_updatedAt target < t_updatedAt target') = (t_updatedAt target < now)))
   \<and> (\<forall>profile'. fst (updateSmtpProfile now eid dSmtpProfile s) = Some profile' \<longrightarrow>
      sp_updatedAt profile' = now
      \<and> (\<exists>profile. Map_get (smtpProfiles s) eid = Some profile
            \<and> (sp_updatedAt profile < sp_updatedAt profile') = (sp_updatedAt profile < now)))
   \<and> (\<forall>template'. fst (updateEmailTemplate now eid dEmailTemplate s) = Some template' \<longrightarrow>
      et_updatedAt template' = now
      \<and> (\<exists>template. Map_get (emailTemplates s) eid = Some template
            \<and> (et_updatedAt template < et_updatedAt template') = (et_updatedAt template < now)))
   \<and> (\<forall>page'. fst (updateLandingPage now eid dLandingPage s) = Some page' \<longrightarrow>
      lp_updatedAt page' = now
      \<and> (\<exists>page. Map_get (landingPages s) eid = Some page
            \<and> (lp_updatedAt page < lp_updatedAt page') = (lp_updatedAt page < now)))
   \<and> (\<forall>campaign'. fst (updateCampaign now eid dCampaign s) = Some campaign' \<longrightarrow>
      c_updatedAt campaign' = now
      \<and> (\<exists>campaign. Map_get (campaigns s) eid = Some campaign
            \<and> (c_updatedAt campaign < c_updatedAt campaign') = (c_updatedAt campaign < now)))
   \<and> (\<forall>result'. fst (updateCampaignResult now eid dCampaignResult s) = Some result' \<longrightarrow>
      cr_updatedAt result' = now
      \<and> (\<exists>result. Map_get (campaignResults s) eid = Some result
            \<and> (cr_updatedAt result < cr_updatedAt result') = (cr_updatedAt result < now)))
   \<and> (\<forall>user'. fst (db_updateUser constraints now eid dUser db) = Inr (Some user') \<longrightarrow>
      u_updatedAt user' = now)
   \<and> (\<forall>grp'. fst (db_updateGroup constraints now eid dGroup db) = Inr (Some grp') \<longrightarrow>
      g_updatedAt grp' = now)
   \<and> (\<forall>target'. fst (db_updateTarget constraints now eid dTarget db) = Inr (Some target') \<longrightarrow>
      t_updatedAt target' = now)
   \<and> (\<forall>profile'. fst (db_updateSmtpProfile constraints now eid dSmtpProfile db) = Inr (Some profile') \<longrightarrow>
      sp_updatedAt profile' = now)
   \<and> (\<forall>template'. fst (db_updateEmailTemplate constraints now eid dEmailTemplate db) = Inr (Some template') \<longrightarrow>
      et_updatedAt template' = now)
   \<and> (\<forall>page'. fst (db_updateLandingPage constraints now eid dLandingPage db) = Inr (Some page') \<longrightarrow>
      lp_updatedAt page' = now)
   \<and> (\<forall>campaign'. fst (db_updateCampaign constraints now eid dCampaign db) = Inr (Some campaign') \<longrightarrow>
      c_updatedAt campaign' = now)
   \<and> (\<forall>result'. fst (db_updateCampaignResult constraints now eid dCampaignResult db) = Inr (Some result') \<longrightarrow>
      cr_updatedAt result' = now)"
proof -
  have User: "(\<forall>user'. fst (updateUser now eid dUser s) = Some user' \<longrightarrow>
      u_updatedAt user' = now
      \<and> (\<exists>user. Map_get (users s) eid = Some user
            \<and> (u_updatedAt user < u_updatedAt user') = (u_updatedAt user < now)))"
    by (cases "Map_get (users s) eid")
      (simp_all add: updateUser_Some updateUser_None spread_User_def)
  have Group: "(\<forall>grp'. fst (updateGroup now eid dGroup s) = Some grp' \<longrightarrow>
      g_updatedAt grp' = now
      \<and> (\<exists>grp. Map_get (groups s) eid = Some grp
            \<and> (g_updatedAt grp < g_updatedAt grp') = (g_updatedAt grp < now)))"
    by (cases "Map_get (groups s) eid")
      (simp_all add: updateGroup_Some updateGroup_None spread_Group_def)
  have Target: "(\<forall>target'. fst (updateTarget now eid dTarget s) = Some target' \<longrightarrow>
      t_updatedAt target' = now
      \<and> (\<exists>target. Map_get (targets s) eid = Some target
            \<and> (t_updatedAt target < t_updatedAt target') = (t_updatedAt target < now)))"
    by (cases "Map_get (targets s) eid")
      (simp_all add: updateTarget_Some updateTarget_None spread_Target_def)
  have SmtpProfile: "(\<forall>profile'. fst (updateSmtpProfile now eid dSmtpProfile s) = Some profile' \<longrightarrow>
      sp_updatedAt profile' = now
      \<and> (\<exists>profile. Map_get (smtpProfiles s) eid = Some profile
            \<and> (sp_updatedAt profile < sp_updatedAt profile') = (sp_updatedAt profile < now)))"
    by (cases "Map_get (smtpProfiles s) eid")
      (simp_all add: updateSmtpProfile_Some updateSmtpProfile_None spread_SmtpProfile_def)
  have EmailTemplate: "(\<forall>template'. fst (updateEmailTemplate now eid dEmailTemplate s) = Some template' \<longrightarrow>
      et_updatedAt template' = now
      \<and> (\<exists>template. Map_get (emailTemplates s) eid = Some template
            \<and> (et_updatedAt template < et_updatedAt template') = (et_updatedAt template < now)))"
    by (cases "Map_get (emailTemplates s) eid")
      (simp_all add: updateEmailTemplate_Some updateEmailTemplate_None spread_EmailTemplate_def)
  have LandingPage: "(\<forall>page'. fst (updateLandingPage now eid dLandingPage s) = Some page' \<longrightarrow>
      lp_updatedAt page' = now
      \<and> (\<exists>page. Map_get (landingPages s) eid = Some page
            \<and> (lp_updatedAt page < lp_updatedAt page') = (lp_updatedAt page < now)))"
    by (cases "Map_get (landingPages s) eid")
      (simp_all add: updateLandingPage_Some updateLandingPage_None spread_LandingPage_def)
  have Campaign: "(\<forall>campaign'. fst (updateCampaign now eid dCampaign s) = Some campaign' \<longrightarrow>
      c_updatedAt campaign' = now
      \<and> (\<exists>campaign. Map_get (campaigns s) eid = Some campaign
            \<and> (c_updatedAt campaign < c_updatedAt campaign') = (c_updatedAt campaign < now)))"
    by (cases "Map_get (campaigns s) eid")
      (simp_all add: updateCampaign_Some updateCampaign_None spread_Campaign_def)
  have CampaignResult: "(\<forall>result'. fst (updateCampaignResult now eid dCampaignResult s) = Some result' \<longrightarrow>
      cr_updatedAt result' = now
      \<and> (\<exists>result. Map_get (campaignResults s) eid = Some result
            \<and> (cr_updatedAt result < cr_updatedAt result') = (cr_updatedAt result < now)))"
    by (cases "Map_get (campaignResults s) eid")
      (simp_all add: updateCampaignResult_Some updateCampaignResult_None spread_CampaignResult_def)
  have db_User: "(\<forall>user'. fst (db_updateUser constraints now eid dUser db) = Inr (Some user') \<longrightarrow>
      u_updatedAt user' = now)"
    by (simp add: db_updateUser_stamp)
  have db_Group: "(\<forall>grp'. fst (db_updateGroup constraints now eid dGroup db) = Inr (Some grp') \<longrightarrow>
      g_updatedAt grp' = now)"
    by (simp add: db_updateGroup_stamp)
  have db_Target: "(\<forall>target'. fst (db_updateTarget constraints now eid dTarget db) = Inr (Some target') \<longrightarrow>
      t_updatedAt target' = now)"
    by (simp add: db_updateTarget_stamp)
  have db_SmtpProfile: "(\<forall>profile'. fst (db_updateSmtpProfile constraints now eid dSmtpProfile db) = Inr (Some profile') \<longrightarrow>
      sp_updatedAt profile' = now)"
    by (simp add: db_updateSmtpProfile_stamp)
  have db_EmailTemplate: "(\<forall>template'. fst (db_updateEmailTemplate constraints now eid dEmailTemplate db) = Inr (Some template') \<longrightarrow>
      et_updatedAt template' = now)"
    by (simp add: db_updateEmailTemplate_stamp)
  have db_LandingPage: "(\<forall>page'. fst (db_updateLandingPage constraints now eid dLandingPage db) = Inr (Some page') \<longrightarrow>
      lp_updatedAt page' = now)"
    by (simp add: db_updateLandingPage_stamp)
  have db_Campaign: "(\<forall>campaign'. fst (db_updateCampaign constraints now eid dCampaign db) = Inr (Some campaign') \<longrightarrow>
      c_updatedAt campaign' = now)"
    by (simp add: db_updateCampaign_stamp)
  have db_CampaignResult: "(\<forall>result'. fst (db_updateCampaignResult constraints now eid dCampaignResult db) = Inr (Some result') \<longrightarrow>
      cr_updatedAt result' = now)"
    by (simp add: db_updateCampaignResult_stamp)
  from User Group Target SmtpProfile EmailTemplate LandingPage Campaign CampaignResult db_User db_Group db_Target db_SmtpProfile db_EmailTemplate db_LandingPage db_Campaign db_CampaignResult
  show ?thesis by (intro conjI)
qed

text \<open>
  C9 as stated fails when the clock has not moved: a group created and updated at the
  same reading keeps its \<^verbatim>\<open>updatedAt\<close>.
\<close>


theorem update_stamps_updatedAt_counterexample:
  "\<exists>grp grp'. getGroup 1 store_with_group = Some grp
      \<and> fst (updateGroup 1000 1 sample_move store_with_group) = Some grp'
      \<and> \<not> (g_updatedAt grp < g_updatedAt grp')"
  by (simp add: store_with_group_eq getGroup_def updateGroup_def spread_Group_def Let_def)

theorem update_stamps_updatedAt_witness:
  "fst (updateGroup 2000 1 sample_move store_with_group) =
     Some \<lparr>g_id = 40, g_name = ''Ops'', g_description = None, g_organizationId = 9,
           g_createdAt = 1000, g_updatedAt = 2000\<rparr>
   \<and> (\<exists>grp. Map_get (groups store_with_group) 1 = Some grp \<and> g_updatedAt grp < 2000)
   \<and> fst (db_updateGroup (\<lambda>db. None) 2000 1 sample_rename database_with_targets) =
       Inr (Some \<lparr>g_id = 1, g_name = ''Ops'', g_description = Some ''Operations'',
                  g_organizationId = 7, g_createdAt = 1000, g_updatedAt = 2000\<rparr>)"
proof -
  let ?g' = "\<lparr>g_id = 40, g_name = ''Ops'', g_description = None, g_organizationId = 9,
           g_createdAt = 1000, g_updatedAt = 2000::int\<rparr>"
  have ev: "fst (updateGroup 2000 1 sample_move store_with_group) = Some ?g'"
    by (simp add: store_with_group_eq updateGroup_def spread_Group_def spread_def
        sample_move_def Let_def)
  have db: "fst (db_updateGroup (\<lambda>db. None) 2000 1 sample_rename database_with_targets) =
       Inr (Some \<lparr>g_id = 1, g_name = ''Ops'', g_description = Some ''Operations'',
                  g_organizationId = 7, g_createdAt = 1000, g_updatedAt = 2000\<rparr>)"
    by (simp add: database_with_targets_eq db_updateGroup_def db_returning_def first_row_def
        spread_Group_def spread_def sample_rename_def Let_def)
  have "\<forall>grp'. fst (updateGroup 2000 1 sample_move store_with_group) = Some grp' \<longrightarrow>
      g_updatedAt grp' = 2000
      \<and> (\<exists>grp. Map_get (groups store_with_group) 1 = Some grp
            \<and> (g_updatedAt grp < g_updatedAt grp') = (g_updatedAt grp < 2000))"
    by (rule update_stamps_updatedAt[where s = store_with_group and eid = 1
          and dGroup = sample_move and now = 2000, THEN conjunct2, THEN conjunct1])
  with ev obtain grp where "Map_get (groups store_with_group) 1 = Some grp"
    and "(g_updatedAt grp < g_updatedAt ?g') = (g_updatedAt grp < 2000)"
    by blast
  moreover have "g_updatedAt grp < 2000"
    using \<open>Map_get (groups store_with_group) 1 = Some grp\<close>
    by (auto simp: store_with_group_eq)
  ultimately show ?thesis using ev db by blast
qed

text \<open>
  C10, as amended. Each of the eight update methods, on an id that is present, returns
  the updated entity and stores it under that id; every field of it other than
  \<^verbatim>\<open>updatedAt\<close> is the value the data supplies, or the prior value where the data
  supplies none (\<^verbatim>\<open>id\<close> and \<^verbatim>\<open>organizationId\<close> are overwritten like any other
  field); \<^verbatim>\<open>updatedAt\<close> is the clock reading of the update, whether the data
  supplies one or not.
\<close>

theorem update_frame:
  "(Map_get (users s) eid = Some user \<longrightarrow>
      (\<exists>user'. updateUser now eid dUser s = (Some user', s\<lparr>users := Map_set eid user' (users s)\<rparr>)
         \<and> getUser eid (snd (updateUser now eid dUser s)) = Some user'
         \<and> merged (pu_id dUser) (u_id user) (u_id user')
         \<and> merged (pu_email dUser) (u_email user) (u_email user')
         \<and> merged (pu_password dUser) (u_password user) (u_password user')
         \<and> merged (pu_firstName dUser) (u_firstName user) (u_firstName user')
         \<and> merged (pu_lastName dUser) (u_lastName user) (u_lastName user')
         \<and> merged (pu_isAdmin dUser) (u_isAdmin user) (u_isAdmin user')
         \<and> merged (pu_organizationId dUser) (u_organizationId user) (u_organizationId user')
         \<and> merged (pu_organizationName dUser) (u_organizationName user) (u_organizationName user')
         \<and> merged (pu_createdAt dUser) (u_createdAt user) (u_createdAt user')
         \<and> u_updatedAt user' = now))
   \<and> (Map_get (groups s) eid = Some grp \<longrightarrow>
      (\<exists>grp'. updateGroup now eid dGroup s = (Some grp', s\<lparr>groups := Map_set eid grp' (groups s)\<rparr>)
         \<and> getGroup eid (snd (updateGroup now eid dGroup s)) = Some grp'
         \<and> merged (pg_id dGroup) (g_id grp) (g_id grp')
         \<and> merged (pg_name dGroup) (g_name grp) (g_name grp')
         \<and> merged (pg_description dGroup) (g_description grp) (g_description grp')
         \<and> merged (pg_organizationId dGroup) (g_organizationId grp) (g_organizationId grp')
         \<and> merged (pg_createdAt dGroup) (g_createdAt grp) (g_createdAt grp')
         \<and> g_updatedAt grp' = now))
   \<and> (Map_get (targets s) eid = Some target \<longrightarrow>
      (\<exists>target'. updateTarget now eid dTarget s = (Some target', s\<lparr>targets := Map_set eid target' (targets s)\<rparr>)
         \<and> getTarget eid (snd (updateTarget now eid dTarget s)) = Some target'
         \<and> merged (pt_id dTarget) (t_id target) (t_id target')
         \<and> merged (pt_firstName dTarget) (t_firstName target) (t_firstName target')
         \<and> merged (pt_lastName dTarget) (t_lastName target) (t_lastName target')
         \<and> merged (pt_email dTarget) (t_email target) (t_email target')
         \<and> merged (pt_position dTarget) (t_position target) (t_position target')
         \<and> merged (pt_groupId dTarget) (t_groupId target) (t_groupId target')
         \<and> merged (pt_organizationId dTarget) (t_organizationId target) (t_organizationId target')
         \<and> merged (pt_createdAt dTarget) (t_createdAt target) (t_createdAt target')
         \<and> t_updatedAt target' = now))
   \<and> (Map_get (smtpProfiles s) eid = Some profile \<longrightarrow>
      (\<exists>profile'. updateSmtpProfile now eid dSmtpProfile s = (Some profile', s\<lparr>smtpProfiles := Map_set eid profile' (smtpProfiles s)\<rparr>)
         \<and> getSmtpProfile eid (snd (updateSmtpProfile now eid dSmtpProfile s)) = Some profile'
         \<and> merged (psp_id dSmtpProfile) (sp_id profile) (sp_id profile')
         \<and> merged (psp_name dSmtpProfile) (sp_name profile) (sp_name profile')
         \<and> merged (psp_host dSmtpProfile) (sp_host profile) (sp_host profile')
         \<and> merged (psp_port dSmtpProfile) (sp_port profile) (sp_port profile')
         \<and> merged (psp_username dSmtpProfile) (sp_username profile) (sp_username profile')
         \<and> merged (psp_password dSmtpProfile) (sp_password profile) (sp_password profile')
         \<and> merged (psp_fromName dSmtpProfile) (sp_fromName profile) (sp_fromName profile')
         \<and> merged (psp_fromEmail dSmtpProfile) (sp_fromEmail profile) (sp_fromEmail profile')
         \<and> merged (psp_organizationId dSmtpProfile) (sp_organizationId profile) (sp_organizationId profile')
         \<and> merged (psp_createdAt dSmtpProfile) (sp_createdAt profile) (sp_createdAt profile')
         \<and> sp_updatedAt profile' = now))
   \<and> (Map_get (emailTemplates s) eid = Some template \<longrightarrow>
      (\<exists>template'. updateEmailTemplate now eid dEmailTemplate s = (Some template', s\<lparr>emailTemplates := Map_set eid template' (emailTemplates s)\<rparr>)
         \<and> getEmailTemplate eid (snd (updateEmailTemplate now eid dEmailTemplate s)) = Some template'
         \<and> merged (pet_id dEmailTemplate) (et_id template) (et_id template')
         \<and> merged (pet_name dEmailTemplate) (et_name template) (et_name template')
         \<and> merged (pet_subject dEmailTemplate) (et_subject template) (et_subject template')
         \<and> merged (pet_htmlContent dEmailTemplate) (et_htmlContent template) (et_htmlContent template')
         \<and> merged (pet_textContent dEmailTemplate) (et_textContent template) (et_textContent template')
         \<and> merged (pet_senderName dEmailTemplate) (et_senderName template) (et_senderName template')
         \<and> merged (pet_senderEmail dEmailTemplate) (et_senderEmail template) (et_senderEmail template')
         \<and> merged (pet_organizationId dEmailTemplate) (et_organizationId template) (et_organizationId template')
         \<and> merged (pet_createdById dEmailTemplate) (et_createdById template) (et_createdById template')
         \<and> merged (pet_createdAt dEmailTemplate) (et_createdAt template) (et_createdAt template')
         \<and> et_updatedAt template' = now))
   \<and> (Map_get (landingPages s) eid = Some page \<longrightarrow>
      (\<exists>page'. updateLandingPage now eid dLandingPage s = (Some page', s\<lparr>landingPages := Map_set eid page' (landingPages s)\<rparr>)
         \<and> getLandingPage eid (snd (updateLandingPage now eid dLandingPage s)) = Some page'
         \<and> merged (plp_id dLandingPage) (lp_id page) (lp_id page')
         \<and> merged (plp_name dLandingPage) (lp_name page) (lp_name page')
         \<and> merged (plp_description dLandingPage) (lp_description page) (lp_description page')
         \<and> merged (plp_htmlContent dLandingPage) (lp_htmlContent page) (lp_htmlContent page')
         \<and> merged (plp_redirectUrl dLandingPage) (lp_redirectUrl page) (lp_redirectUrl page')
         \<and> merged (plp_pageType dLandingPage) (lp_pageType page) (lp_pageType page')
         \<and> merged (plp_thumbnail dLandingPage) (lp_thumbnail page) (lp_thumbnail page')
         \<and> merged (plp_organizationId dLandingPage) (lp_organizationId page) (lp_organizationId page')
         \<and> merged (plp_createdById dLandingPage) (lp_createdById page) (lp_createdById page')
         \<and> merged (plp_createdAt dLandingPage) (lp_createdAt page) (lp_createdAt page')
         \<and> lp_updatedAt page' = now))
   \<and> (Map_get (campaigns s) eid = Some campaign \<longrightarrow>
      (\<exists>campaign'. updateCampaign now eid dCampaign s = (Some campaign', s\<lparr>campaigns := Map_set eid campaign' (campaigns s)\<rparr>)
         \<and> getCampaign eid (snd (updateCampaign now eid dCampaign s)) = Some campaign'
         \<and> merged (pc_id dCampaign) (c_id campaign) (c_id campaign')
         \<and> merged (pc_name dCampaign) (c_name campaign) (c_name campaign')
         \<and> merged (pc_status dCampaign) (c_status campaign) (c_status campaign')
         \<and> merged (pc_targetGroupId dCampaign) (c_targetGroupId campaign) (c_targetGroupId campaign')
         \<and> merged (pc_smtpProfileId dCampaign) (c_smtpProfileId campaign) (c_smtpProfileId campaign')
         \<and> merged (pc_emailTemplateId dCampaign) (c_emailTemplateId campaign) (c_emailTemplateId campaign')
         \<and> merged (pc_landingPageId dCampaign) (c_landingPageId campaign) (c_landingPageId campaign')
         \<and> merged (pc_scheduledAt dCampaign) (c_scheduledAt campaign) (c_scheduledAt campaign')
         \<and> merged (pc_endDate dCampaign) (c_endDate campaign) (c_endDate campaign')
         \<and> merged (pc_createdById dCampaign) (c_createdById campaign) (c_createdById campaign')
         \<and> merged (pc_organizationId dCampaign) (c_organizationId campaign) (c_organizationId campaign')
         \<and> merged (pc_createdAt dCampaign) (c_createdAt campaign) (c_createdAt campaign')
         \<and> c_updatedAt campaign' = now))
   \<and> (Map_get (campaignResults s) eid = Some result \<longrightarrow>
      (\<exists>result'. updateCampaignResult now eid dCampaignResult s = (Some result', s\<lparr>campaignResults := Map_set eid result' (campaignResults s)\<rparr>)
         \<and> getCampaignResult eid (snd (updateCampaignResult now eid dCampaignResult s)) = Some result'
         \<and> merged (pcr_id dCampaignResult) (cr_id result) (cr_id result')
         \<and> merged (pcr_campaignId dCampaignResult) (cr_campaignId result) (cr_campaignId result')
         \<and> merged (pcr_targetId dCampaignResult) (cr_targetId result) (cr_targetId result')
         \<and> merged (pcr_sent dCampaignResult) (cr_sent result) (cr_sent result')
         \<and> merged (pcr_sentAt dCampaignResult) (cr_sentAt result) (cr_sentAt result')
         \<and> merged (pcr_opened dCampaignResult) (cr_opened result) (cr_opened result')
         \<and> merged (pcr_openedAt dCampaignResult) (cr_openedAt result) (cr_openedAt result')
         \<and> merged (pcr_clicked dCampaignResult) (cr_clicked result) (cr_clicked result')
         \<and> merged (pcr_clickedAt dCampaignResult) (cr_clickedAt result) (cr_clickedAt result')
         \<and> merged (pcr_submitted dCampaignResult) (cr_submitted result) (cr_submitted result')
         \<and> merged (pcr_submittedAt dCampaignResult) (cr_submittedAt result) (cr_submittedAt result')
         \<and> merged (pcr_submittedData dCampaignResult) (cr_submittedData result) (cr_submittedData result')
         \<and> merged (pcr_organizationId dCampaignResult) (cr_organizationId result) (cr_organizationId result')
         \<and> merged (pcr_createdAt dCampaignResult) (cr_createdAt result) (cr_createdAt result')
         \<and> cr_updatedAt result' = now))"
  by (intro conjI) (rule updateUser_frame updateGroup_frame updateTarget_frame updateSmtpProfile_frame updateEmailTemplate_frame updateLandingPage_frame updateCampaign_frame updateCampaignResult_frame)+

text \<open>
  C10 as stated fails where the data supplies \<^verbatim>\<open>updatedAt\<close>: the stored entity
  does not agree with the data on that field.
\<close>

theorem update_frame_counterexample:
  "\<exists>grp grp'. getGroup 1 store_with_group = Some grp
      \<and> getGroup 1 (snd (updateGroup 2000 1 sample_touch store_with_group)) = Some grp'
      \<and> pg_updatedAt sample_touch = Some 1500
      \<and> \<not> merged (pg_updatedAt sample_touch) (g_updatedAt grp) (g_updatedAt grp')"
  by (simp add: store_with_group_eq getGroup_def updateGroup_def spread_Group_def spread_def
      sample_touch_def merged_def Let_def)

theorem update_frame_witness:
  "Map_get (groups store_with_group) 1 =
     Some \<lparr>g_id = 1, g_name = ''Sales'', g_description = None, g_organizationId = 7,
           g_createdAt = 1000, g_updatedAt = 1000\<rparr>
   \<and> (\<exists>grp'. getGroup 1 (snd (updateGroup 2000 1 sample_move store_with_group)) = Some grp'
         \<and> g_id grp' = 40 \<and> g_name grp' = ''Ops'' \<and> g_description grp' = None
         \<and> g_organizationId grp' = 9 \<and> g_createdAt grp' = 1000 \<and> g_updatedAt grp' = 2000)"
proof -
  let ?g = "\<lparr>g_id = 1, g_name = ''Sales'', g_description = None, g_organizationId = 7,
           g_createdAt = 1000, g_updatedAt = 1000\<rparr>"
  have present: "Map_get (groups store_with_group) 1 = Some ?g"
    by (simp add: store_with_group_eq)
  have "Map_get (groups store_with_group) 1 = Some ?g \<longrightarrow>
      (\<exists>grp'. updateGroup 2000 1 sample_move store_with_group =
           (Some grp', store_with_group\<lparr>groups := Map_set 1 grp' (groups store_with_group)\<rparr>)
         \<and> getGroup 1 (snd (updateGroup 2000 1 sample_move store_with_group)) = Some grp'
         \<and> merged (pg_id sample_move) (g_id ?g) (g_id grp')
         \<and> merged (pg_name sample_move) (g_name ?g) (g_name grp')
         \<and> merged (pg_description sample_move) (g_description ?g) (g_description grp')
         \<and> merged (pg_organizationId sample_move) (g_organizationId ?g) (g_organizationId grp')
         \<and> merged (pg_createdAt sample_move) (g_createdAt ?g) (g_createdAt grp')
         \<and> g_updatedAt grp' = 2000)"
    using update_frame[where s = store_with_group and eid = 1 and grp = ?g
        and dGroup = sample_move and now = 2000]
    by blast
  with present obtain grp' where
    "getGroup 1 (snd (updateGroup 2000 1 sample_move store_with_group)) = Some grp'"
    "merged (pg_id sample_move) (g_id ?g) (g_id grp')"
    "merged (pg_name sample_move) (g_name ?g) (g_name grp')"
    "merged (pg_description sample_move) (g_description ?g) (g_description grp')"
    "merged (pg_organizationId sample_move) (g_organizationId ?g) (g_organizationId grp')"
    "merged (pg_createdAt sample_move) (g_createdAt ?g) (g_createdAt grp')"
    "g_updatedAt grp' = 2000"
    by blast
  then have "getGroup 1 (snd (updateGroup 2000 1 sample_move store_with_group)) = Some grp'
         \<and> g_id grp' = 40 \<and> g_name grp' = ''Ops'' \<and> g_description grp' = None
         \<and> g_organizationId grp' = 9 \<and> g_createdAt grp' = 1000 \<and> g_updatedAt grp' = 2000"
    by (simp add: merged_def sample_move_def)
  with present show ?thesis by blast
qed

end
